theory Spec2Isabelle
  imports Main
begin

section \<open>Errors and strings\<close>

text \<open>
  A Go \<open>error\<close> is used by the code below only through its \<open>Error()\<close> method, so it is
  modelled by the message it carries. \<open>errors.New\<close> and \<open>fmt.Errorf\<close> both build such a
  value; the formatted text of \<open>fmt.Errorf\<close> is written out at each call.
\<close>

datatype error = errorString (Error: string)

definition errors_New :: "string \<Rightarrow> error" where
  "errors_New text = errorString text"

definition fmt_Errorf :: "string \<Rightarrow> error" where
  "fmt_Errorf formatted = errorString formatted"

text \<open>\<open>strings.HasPrefix\<close> and \<open>strings.Contains\<close> of the Go standard library, on bytes.\<close>

definition HasPrefix :: "string \<Rightarrow> string \<Rightarrow> bool" where
  "HasPrefix s pre = (length pre \<le> length s \<and> take (length pre) s = pre)"

fun Contains :: "string \<Rightarrow> string \<Rightarrow> bool" where
  "Contains [] substr = (substr = [])"
| "Contains (c # s) substr = (HasPrefix (c # s) substr \<or> Contains s substr)"

text \<open>
  \<open>IsNotFound\<close> (package utils): three calls of \<open>strings.Contains\<close> on \<open>err.Error()\<close>.
\<close>

definition IsNotFound :: "error \<Rightarrow> bool" where
  "IsNotFound err =
     (if Contains (Error err) ''not found'' \<or> Contains (Error err) ''NotFound''
         \<or> Contains (Error err) ''404''
      then True else False)"

section \<open>Operations and the poller\<close>

text \<open>
  Modelled from the spec: the state enum of an operation, whose declaration (generated
  protobuf code) is not among the sources. The spec lists PENDING, RUNNING, COMPLETED and
  FAILED; the code names \<open>Operation_STATE_COMPLETED\<close> and \<open>Operation_STATE_FAILED\<close>.
\<close>

datatype Operation_State =
  Operation_STATE_PENDING | Operation_STATE_RUNNING
  | Operation_STATE_COMPLETED | Operation_STATE_FAILED

text \<open>The error payload of an operation; the code reads its message only.\<close>

record Status =
  Message :: string

record Operation =
  op_Id :: string
  op_State :: Operation_State
  op_Error :: "Status option"

definition GetId :: "Operation \<Rightarrow> string" where
  "GetId op = op_Id op"

definition GetState :: "Operation \<Rightarrow> Operation_State" where
  "GetState op = op_State op"

definition GetError :: "Operation \<Rightarrow> Status option" where
  "GetError op = op_Error op"

text \<open>The generated getter is safe on a nil payload, where it returns the empty string.\<close>

definition GetMessage :: "Status option \<Rightarrow> string" where
  "GetMessage st = (case st of None \<Rightarrow> [] | Some s \<Rightarrow> Message s)"

definition CheckOpsState :: "Operation \<Rightarrow> bool" where
  "CheckOpsState op =
     (case GetState op of
        Operation_STATE_COMPLETED \<Rightarrow> True
      | Operation_STATE_FAILED \<Rightarrow> True
      | _ \<Rightarrow> False)"

text \<open>
  The world \<open>AreWeDoneYet\<close> acts on: the clock (nanoseconds, as \<open>time.Duration\<close> counts),
  the number of \<open>GetOperation\<close> calls issued so far, and the durations handed to
  \<open>time.Sleep\<close>, in order.

  The client is the environment: asked for an operation id, its \<open>n\<close>-th call takes some
  time and returns an error or an operation. A cancelled context shows up here, as the
  error the call returns; the code reads the context nowhere else.

  Durations and clock readings are integers; the 64-bit range of \<open>time.Duration\<close> (some
  292 years) is left out. \<open>time.Sleep\<close> advances the clock by the duration it is given;
  what a real sleep takes longer counts into the duration of the call that follows. The
  operation handed to \<open>AreWeDoneYet\<close> and the ones the client returns are messages, not
  nil pointers.
\<close>

record World =
  now :: int
  calls :: nat
  sleeps :: "int list"

type_synonym OperationServiceClient = "string \<Rightarrow> nat \<Rightarrow> nat \<times> (error + Operation)"

definition Second :: int where
  "Second = 1000000000"

definition GetOperation :: "OperationServiceClient \<Rightarrow> string \<Rightarrow> World \<Rightarrow> (error + Operation) \<times> World" where
  "GetOperation client ident w =
     (case client ident (calls w) of
        (d, r) \<Rightarrow> (r, w\<lparr>now := now w + int d, calls := Suc (calls w)\<rparr>))"

definition Sleep :: "int \<Rightarrow> World \<Rightarrow> World" where
  "Sleep d w = w\<lparr>now := now w + d, sleeps := sleeps w @ [d]\<rparr>"

definition Since :: "int \<Rightarrow> World \<Rightarrow> int" where
  "Since startTime w = now w - startTime"

text \<open>The \<open>for\<close> loop of \<open>AreWeDoneYet\<close>; \<open>startTime\<close> is read before the loop.\<close>

function poll :: "OperationServiceClient \<Rightarrow> Operation \<Rightarrow> int \<Rightarrow> int \<Rightarrow> World \<Rightarrow> error option \<times> World" where
  "poll client op timeout startTime w =
     (case GetOperation client (GetId op) w of
        (Inl err, w1) \<Rightarrow> (Some err, w1)
      | (Inr o1, w1) \<Rightarrow>
          if CheckOpsState o1 then
            (if GetError o1 \<noteq> None then
               (if \<not> IsNotFound (errors_New (GetMessage (GetError o1))) then (None, w1)
                else (Some (fmt_Errorf (''operation failed: '' @ GetMessage (GetError o1))), w1))
             else (None, w1))
          else if Since startTime w1 > timeout then (Some (fmt_Errorf ''timeout reached''), w1)
          else poll client op timeout startTime (Sleep (10 * Second) w1))"
  by pat_completeness auto
termination
  by (relation "measure (\<lambda>(client, op, timeout, startTime, w). nat (timeout + startTime + 1 - now w))")
     (auto simp: GetOperation_def Sleep_def Since_def Second_def split: prod.splits)

definition AreWeDoneYet :: "OperationServiceClient \<Rightarrow> Operation \<Rightarrow> int \<Rightarrow> World \<Rightarrow> error option \<times> World" where
  "AreWeDoneYet client op timeout w =
     (if CheckOpsState op then
        (if GetError op \<noteq> None then
           (Some (fmt_Errorf (''operation failed: '' @ GetMessage (GetError op))), w)
         else (None, w))
      else poll client op timeout (now w) w)"

text \<open>Concrete inputs of the poller, used to run it.\<close>

definition runningOp :: Operation where
  "runningOp = \<lparr>op_Id = ''op-1'', op_State = Operation_STATE_RUNNING, op_Error = None\<rparr>"

definition completedOp :: Operation where
  "completedOp = \<lparr>op_Id = ''op-1'', op_State = Operation_STATE_COMPLETED, op_Error = None\<rparr>"

definition failedOp :: "string \<Rightarrow> Operation" where
  "failedOp msg =
     \<lparr>op_Id = ''op-1'', op_State = Operation_STATE_FAILED, op_Error = Some \<lparr>Message = msg\<rparr>\<rparr>"

definition world0 :: World where
  "world0 = \<lparr>now = 0, calls = 0, sleeps = []\<rparr>"

text \<open>A client whose every call returns at once with the same operation.\<close>

definition constClient :: "Operation \<Rightarrow> OperationServiceClient" where
  "constClient o1 = (\<lambda>ident n. (0, Inr o1))"

section \<open>Terraform values\<close>

text \<open>
  A value of the plugin framework (\<open>types.String\<close>, \<open>types.Bool\<close>, \<open>types.List\<close>,
  \<open>types.Map\<close>) is null, unknown or known. The zero value of such a Go struct is the null
  one, so a field a struct literal leaves out is \<open>Null\<close>.
\<close>

datatype 'a tfvalue = Null | Unknown | Value 'a

type_synonym tf_String = "string tfvalue"
type_synonym tf_Bool = "bool tfvalue"
type_synonym tf_List = "tf_String list tfvalue"
type_synonym tf_Map = "(string \<times> tf_String) list tfvalue"

definition IsNull :: "'a tfvalue \<Rightarrow> bool" where
  "IsNull v = (case v of Null \<Rightarrow> True | _ \<Rightarrow> False)"

definition ValueBool :: "tf_Bool \<Rightarrow> bool" where
  "ValueBool v = (case v of Value b \<Rightarrow> b | _ \<Rightarrow> False)"

definition ValueString :: "tf_String \<Rightarrow> string" where
  "ValueString v = (case v of Value s \<Rightarrow> s | _ \<Rightarrow> [])"

definition Elements :: "tf_List \<Rightarrow> tf_String list" where
  "Elements v = (case v of Value xs \<Rightarrow> xs | _ \<Rightarrow> [])"

definition BoolValue :: "bool \<Rightarrow> tf_Bool" where
  "BoolValue b = Value b"

definition StringValue :: "string \<Rightarrow> tf_String" where
  "StringValue s = Value s"

definition ListValueMust :: "tf_String list \<Rightarrow> tf_List" where
  "ListValueMust elems = Value elems"

text \<open>\<open>strings.Trim\<close>: leading and trailing bytes of the cutset are removed.\<close>

definition Trim :: "string \<Rightarrow> string \<Rightarrow> string" where
  "Trim s cutset =
     rev (dropWhile (\<lambda>c. c \<in> set cutset) (rev (dropWhile (\<lambda>c. c \<in> set cutset) s)))"

text \<open>
  \<open>TypeListToStringSlice\<close> (package utils). \<open>String\<close> is the framework's own rendering of
  an element (\<open>v.String()\<close>, which quotes a known string); it is a parameter here.
\<close>

definition TypeListToStringSlice :: "(tf_String \<Rightarrow> string) \<Rightarrow> tf_List \<Rightarrow> string list" where
  "TypeListToStringSlice String t = map (\<lambda>v. Trim (String v) [CHR 0x22]) (Elements t)"

text \<open>
  A rendering to run the code with: a known string between double quotes. It agrees with
  the framework on strings that need no escaping.
\<close>

definition quoted :: "tf_String \<Rightarrow> string" where
  "quoted v =
     (case v of Null \<Rightarrow> ''<null>'' | Unknown \<Rightarrow> ''<unknown>''
      | Value s \<Rightarrow> [CHR 0x22] @ s @ [CHR 0x22])"

text \<open>
  \<open>utils.StringSliceToTypeList\<close> is called by \<open>cluster.go\<close> and is not among the sources:
  the functions that call it take it as a parameter. The function below is one to run
  them with: null for no elements, as the null checks at the call sites expect.
\<close>

definition nullIfEmpty :: "string list \<Rightarrow> tf_List" where
  "nullIfEmpty elements = (if elements = [] then Null else Value (map StringValue elements))"

section \<open>The cluster model and the control plane's messages\<close>

text \<open>
  The records of package models (the Terraform side), with the fields \<open>cluster.go\<close> reads
  and writes. A pointer to a block is an \<open>option\<close>: \<open>None\<close> is the nil pointer.
\<close>

record AwsPrivateLink =
  aws_Enabled :: tf_Bool
  aws_ConnectConsole :: tf_Bool
  aws_AllowedPrincipals :: tf_List

record AzurePrivateLink =
  azure_Enabled :: tf_Bool
  azure_ConnectConsole :: tf_Bool
  azure_AllowedSubscriptions :: tf_List

record GcpPrivateServiceConnectConsumer =
  gcpc_Source :: string

record GcpPrivateServiceConnect =
  gcp_Enabled :: tf_Bool
  gcp_GlobalAccessEnabled :: tf_Bool
  gcp_ConsumerAcceptList :: "GcpPrivateServiceConnectConsumer list"

record Mtls =
  mtls_Enabled :: tf_Bool
  mtls_CaCertificatesPem :: tf_List
  mtls_PrincipalMappingRules :: tf_List

record KafkaAPI =
  kafka_Mtls :: "Mtls option"

record HTTPProxy =
  http_Mtls :: "Mtls option"

record SchemaRegistry =
  sr_Mtls :: "Mtls option"

record models_Cluster =
  mc_Name :: tf_String
  mc_ID :: tf_String
  mc_ConnectionType :: tf_String
  mc_CloudProvider :: tf_String
  mc_ClusterType :: tf_String
  mc_RedpandaVersion :: tf_String
  mc_ThroughputTier :: tf_String
  mc_Region :: tf_String
  mc_Zones :: tf_List
  mc_AllowDeletion :: tf_Bool
  mc_Tags :: tf_Map
  mc_ResourceGroupID :: tf_String
  mc_NetworkID :: tf_String
  mc_ClusterAPIURL :: tf_String
  mc_ReadReplicaClusterIDs :: tf_List
  mc_AwsPrivateLink :: "AwsPrivateLink option"
  mc_GcpPrivateServiceConnect :: "GcpPrivateServiceConnect option"
  mc_AzurePrivateLink :: "AzurePrivateLink option"
  mc_KafkaAPI :: "KafkaAPI option"
  mc_HTTPProxy :: "HTTPProxy option"
  mc_SchemaRegistry :: "SchemaRegistry option"

text \<open>The messages of package controlplanev1beta2, with the fields \<open>cluster.go\<close> uses.\<close>

record AWSPrivateLinkSpec =
  awsSpec_Enabled :: bool
  awsSpec_AllowedPrincipals :: "string list"
  awsSpec_ConnectConsole :: bool

record AWSPrivateLinkStatus =
  awsStatus_Enabled :: bool
  awsStatus_ConnectConsole :: bool
  awsStatus_AllowedPrincipals :: "string list"

record AzurePrivateLinkSpec =
  azureSpec_Enabled :: bool
  azureSpec_AllowedSubscriptions :: "string list"
  azureSpec_ConnectConsole :: bool

record AzurePrivateLinkStatus =
  azureStatus_Enabled :: bool
  azureStatus_ConnectConsole :: bool
  azureStatus_AllowedSubscriptions :: "string list"

record GCPPrivateServiceConnectConsumer =
  gcpcSpec_Source :: string

record GCPPrivateServiceConnectSpec =
  gcpSpec_Enabled :: bool
  gcpSpec_GlobalAccessEnabled :: bool
  gcpSpec_ConsumerAcceptList :: "GCPPrivateServiceConnectConsumer list"

record GCPPrivateServiceConnectStatus =
  gcpStatus_Enabled :: bool
  gcpStatus_GlobalAccessEnabled :: bool
  gcpStatus_ConsumerAcceptList :: "GCPPrivateServiceConnectConsumer list"

record MTLSSpec =
  mtlsSpec_Enabled :: bool
  mtlsSpec_CaCertificatesPem :: "string list"
  mtlsSpec_PrincipalMappingRules :: "string list"

record KafkaAPISpec =
  kafkaSpec_Mtls :: "MTLSSpec option"

record HTTPProxySpec =
  httpSpec_Mtls :: "MTLSSpec option"

record SchemaRegistrySpec =
  srSpec_Mtls :: "MTLSSpec option"

record ClusterUpdate =
  cu_Id :: string
  cu_Name :: string
  cu_ReadReplicaClusterIds :: "string list"
  cu_AwsPrivateLink :: "AWSPrivateLinkSpec option"
  cu_AzurePrivateLink :: "AzurePrivateLinkSpec option"
  cu_GcpPrivateServiceConnect :: "GCPPrivateServiceConnectSpec option"
  cu_KafkaApi :: "KafkaAPISpec option"
  cu_HttpProxy :: "HTTPProxySpec option"
  cu_SchemaRegistry :: "SchemaRegistrySpec option"

record FieldMask =
  Paths :: "string list"

record UpdateClusterRequest =
  req_Cluster :: ClusterUpdate
  req_UpdateMask :: FieldMask

datatype CloudProvider =
  CloudProvider_CLOUD_PROVIDER_UNSPECIFIED | CloudProvider_CLOUD_PROVIDER_AWS
  | CloudProvider_CLOUD_PROVIDER_GCP

datatype Cluster_Type =
  Cluster_TYPE_UNSPECIFIED | Cluster_TYPE_DEDICATED | Cluster_TYPE_BYOC

datatype Cluster_ConnectionType =
  Cluster_CONNECTION_TYPE_UNSPECIFIED | Cluster_CONNECTION_TYPE_PUBLIC
  | Cluster_CONNECTION_TYPE_PRIVATE

record DataplaneAPI =
  dp_Url :: string

record Cluster =
  cl_Id :: string
  cl_Name :: string
  cl_ConnectionType :: Cluster_ConnectionType
  cl_CloudProvider :: CloudProvider
  cl_Type :: Cluster_Type
  cl_ThroughputTier :: string
  cl_Region :: string
  cl_Zones :: "string list"
  cl_ResourceGroupId :: string
  cl_NetworkId :: string
  cl_ReadReplicaClusterIds :: "string list"
  cl_DataplaneApi :: "DataplaneAPI option"
  cl_AwsPrivateLink :: "AWSPrivateLinkStatus option"
  cl_GcpPrivateServiceConnect :: "GCPPrivateServiceConnectStatus option"
  cl_AzurePrivateLink :: "AzurePrivateLinkStatus option"
  cl_KafkaApi :: "KafkaAPISpec option"
  cl_HttpProxy :: "HTTPProxySpec option"
  cl_SchemaRegistry :: "SchemaRegistrySpec option"

text \<open>The conversions of package utils that \<open>generateModel\<close> calls.\<close>

definition providerUnspecified :: string where
  "providerUnspecified = ''unspecified''"

definition CloudProviderToString :: "CloudProvider \<Rightarrow> string" where
  "CloudProviderToString provider =
     (case provider of
        CloudProvider_CLOUD_PROVIDER_AWS \<Rightarrow> ''aws''
      | CloudProvider_CLOUD_PROVIDER_GCP \<Rightarrow> ''gcp''
      | _ \<Rightarrow> providerUnspecified)"

definition ClusterTypeToString :: "Cluster_Type \<Rightarrow> string" where
  "ClusterTypeToString provider =
     (case provider of
        Cluster_TYPE_DEDICATED \<Rightarrow> ''dedicated''
      | Cluster_TYPE_BYOC \<Rightarrow> ''cloud''
      | _ \<Rightarrow> providerUnspecified)"

definition ConnectionTypeToString :: "Cluster_ConnectionType \<Rightarrow> string" where
  "ConnectionTypeToString t =
     (case t of
        Cluster_CONNECTION_TYPE_PUBLIC \<Rightarrow> ''public''
      | Cluster_CONNECTION_TYPE_PRIVATE \<Rightarrow> ''private''
      | _ \<Rightarrow> providerUnspecified)"

section \<open>cluster.go\<close>

definition gcpConnectConsumerModelToStruct ::
    "GcpPrivateServiceConnectConsumer list \<Rightarrow> GCPPrivateServiceConnectConsumer list" where
  "gcpConnectConsumerModelToStruct accept = map (\<lambda>a. \<lparr>gcpcSpec_Source = gcpc_Source a\<rparr>) accept"

definition gcpConnectConsumerStructToModel ::
    "GCPPrivateServiceConnectConsumer list \<Rightarrow> GcpPrivateServiceConnectConsumer list" where
  "gcpConnectConsumerStructToModel accept = [] @ map (\<lambda>a. \<lparr>gcpc_Source = gcpcSpec_Source a\<rparr>) accept"

text \<open>The generated getters of \<open>MTLSSpec\<close> and of the messages that hold one; safe on nil.\<close>

definition GetEnabled :: "MTLSSpec option \<Rightarrow> bool" where
  "GetEnabled m = (case m of None \<Rightarrow> False | Some s \<Rightarrow> mtlsSpec_Enabled s)"

definition GetCaCertificatesPem :: "MTLSSpec option \<Rightarrow> string list" where
  "GetCaCertificatesPem m = (case m of None \<Rightarrow> [] | Some s \<Rightarrow> mtlsSpec_CaCertificatesPem s)"

definition GetPrincipalMappingRules :: "MTLSSpec option \<Rightarrow> string list" where
  "GetPrincipalMappingRules m = (case m of None \<Rightarrow> [] | Some s \<Rightarrow> mtlsSpec_PrincipalMappingRules s)"

definition GetKafkaApi_GetMtls :: "Cluster \<Rightarrow> MTLSSpec option" where
  "GetKafkaApi_GetMtls cluster = (case cl_KafkaApi cluster of None \<Rightarrow> None | Some k \<Rightarrow> kafkaSpec_Mtls k)"

definition GetHttpProxy_GetMtls :: "Cluster \<Rightarrow> MTLSSpec option" where
  "GetHttpProxy_GetMtls cluster = (case cl_HttpProxy cluster of None \<Rightarrow> None | Some k \<Rightarrow> httpSpec_Mtls k)"

definition GetSchemaRegistry_GetMtls :: "Cluster \<Rightarrow> MTLSSpec option" where
  "GetSchemaRegistry_GetMtls cluster =
     (case cl_SchemaRegistry cluster of None \<Rightarrow> None | Some k \<Rightarrow> srSpec_Mtls k)"

definition isMtlsStructNil :: "Mtls option \<Rightarrow> bool" where
  "isMtlsStructNil m =
     (case m of
        None \<Rightarrow> True
      | Some x \<Rightarrow> IsNull (mtls_Enabled x) \<and> IsNull (mtls_CaCertificatesPem x)
          \<and> IsNull (mtls_PrincipalMappingRules x))"

definition isMtlsSpecNil :: "MTLSSpec option \<Rightarrow> bool" where
  "isMtlsSpecNil m =
     (m = None \<or> (\<not> GetEnabled m \<and> length (GetCaCertificatesPem m) = 0
        \<and> length (GetPrincipalMappingRules m) = 0))"

definition toMtlsModel :: "(string list \<Rightarrow> tf_List) \<Rightarrow> MTLSSpec option \<Rightarrow> Mtls option" where
  "toMtlsModel StringSliceToTypeList mtls =
     (if isMtlsSpecNil mtls then None
      else Some \<lparr>mtls_Enabled = BoolValue (GetEnabled mtls),
                 mtls_CaCertificatesPem = StringSliceToTypeList (GetCaCertificatesPem mtls),
                 mtls_PrincipalMappingRules = StringSliceToTypeList (GetPrincipalMappingRules mtls)\<rparr>)"

definition toMtlsSpec :: "(tf_String \<Rightarrow> string) \<Rightarrow> Mtls option \<Rightarrow> MTLSSpec option" where
  "toMtlsSpec String mtls =
     (if isMtlsStructNil mtls then
        Some \<lparr>mtlsSpec_Enabled = False, mtlsSpec_CaCertificatesPem = [],
              mtlsSpec_PrincipalMappingRules = []\<rparr>
      else
        map_option (\<lambda>x.
          \<lparr>mtlsSpec_Enabled = ValueBool (mtls_Enabled x),
           mtlsSpec_CaCertificatesPem = TypeListToStringSlice String (mtls_CaCertificatesPem x),
           mtlsSpec_PrincipalMappingRules = TypeListToStringSlice String (mtls_PrincipalMappingRules x)\<rparr>)
          mtls)"

text \<open>
  \<open>isMtlsNil\<close> takes its container as \<open>any\<close> and finds the field \<open>Mtls\<close> by reflection. The
  callers hand it a pointer to one of three structs; a nil pointer, and a nil field, are
  answered with true.
\<close>

datatype container =
  any_KafkaAPI "KafkaAPI option"
  | any_HTTPProxy "HTTPProxy option"
  | any_SchemaRegistry "SchemaRegistry option"

fun FieldByName_Mtls :: "container \<Rightarrow> Mtls option" where
  "FieldByName_Mtls (any_KafkaAPI p) = (case p of None \<Rightarrow> None | Some k \<Rightarrow> kafka_Mtls k)"
| "FieldByName_Mtls (any_HTTPProxy p) = (case p of None \<Rightarrow> None | Some k \<Rightarrow> http_Mtls k)"
| "FieldByName_Mtls (any_SchemaRegistry p) = (case p of None \<Rightarrow> None | Some k \<Rightarrow> sr_Mtls k)"

fun IsNil :: "container \<Rightarrow> bool" where
  "IsNil (any_KafkaAPI p) = (p = None)"
| "IsNil (any_HTTPProxy p) = (p = None)"
| "IsNil (any_SchemaRegistry p) = (p = None)"

definition isMtlsNil :: "container \<Rightarrow> bool" where
  "isMtlsNil v =
     (if IsNil v then True
      else if FieldByName_Mtls v = None then True
      else isMtlsStructNil (FieldByName_Mtls v))"

definition isAwsPrivateLinkStructNil :: "AwsPrivateLink option \<Rightarrow> bool" where
  "isAwsPrivateLinkStructNil m =
     (case m of
        None \<Rightarrow> True
      | Some x \<Rightarrow> IsNull (aws_Enabled x) \<and> IsNull (aws_ConnectConsole x)
          \<and> IsNull (aws_AllowedPrincipals x))"

definition isAwsPrivateLinkSpecNil :: "AWSPrivateLinkStatus option \<Rightarrow> bool" where
  "isAwsPrivateLinkSpecNil m =
     (case m of
        None \<Rightarrow> True
      | Some x \<Rightarrow> \<not> awsStatus_Enabled x \<and> \<not> awsStatus_ConnectConsole x
          \<and> length (awsStatus_AllowedPrincipals x) = 0)"

definition isAzurePrivateLinkStructNil :: "AzurePrivateLink option \<Rightarrow> bool" where
  "isAzurePrivateLinkStructNil m =
     (case m of
        None \<Rightarrow> True
      | Some x \<Rightarrow> IsNull (azure_Enabled x) \<and> IsNull (azure_AllowedSubscriptions x)
          \<and> IsNull (azure_ConnectConsole x))"

definition isAzurePrivateLinkSpecNil :: "AzurePrivateLinkStatus option \<Rightarrow> bool" where
  "isAzurePrivateLinkSpecNil m =
     (case m of
        None \<Rightarrow> True
      | Some x \<Rightarrow> \<not> azureStatus_Enabled x \<and> length (azureStatus_AllowedSubscriptions x) = 0
          \<and> \<not> azureStatus_ConnectConsole x)"

definition isGcpPrivateServiceConnectStructNil :: "GcpPrivateServiceConnect option \<Rightarrow> bool" where
  "isGcpPrivateServiceConnectStructNil m =
     (case m of
        None \<Rightarrow> True
      | Some x \<Rightarrow> IsNull (gcp_Enabled x) \<and> IsNull (gcp_GlobalAccessEnabled x)
          \<and> length (gcp_ConsumerAcceptList x) = 0)"

definition isGcpPrivateServiceConnectSpecNil :: "GCPPrivateServiceConnectStatus option \<Rightarrow> bool" where
  "isGcpPrivateServiceConnectSpecNil m =
     (case m of
        None \<Rightarrow> True
      | Some x \<Rightarrow> \<not> gcpStatus_Enabled x \<and> \<not> gcpStatus_GlobalAccessEnabled x
          \<and> length (gcpStatus_ConsumerAcceptList x) = 0)"

text \<open>
  \<open>generateClusterUpdate\<close>. Each block is set only behind its nil check, where the pointer
  it reads is not nil; \<open>map_option\<close> reads through that pointer.
\<close>

definition generateClusterUpdate :: "(tf_String \<Rightarrow> string) \<Rightarrow> models_Cluster \<Rightarrow> ClusterUpdate" where
  "generateClusterUpdate String cluster =
     (let update = \<lparr>cu_Id = ValueString (mc_ID cluster),
                     cu_Name = ValueString (mc_Name cluster),
                     cu_ReadReplicaClusterIds =
                       TypeListToStringSlice String (mc_ReadReplicaClusterIDs cluster),
                     cu_AwsPrivateLink = None, cu_AzurePrivateLink = None,
                     cu_GcpPrivateServiceConnect = None, cu_KafkaApi = None,
                     cu_HttpProxy = None, cu_SchemaRegistry = None\<rparr>;
          update =
            (if \<not> isAwsPrivateLinkStructNil (mc_AwsPrivateLink cluster) then
               update\<lparr>cu_AwsPrivateLink := map_option (\<lambda>x.
                 \<lparr>awsSpec_Enabled = ValueBool (aws_Enabled x),
                  awsSpec_AllowedPrincipals = TypeListToStringSlice String (aws_AllowedPrincipals x),
                  awsSpec_ConnectConsole = ValueBool (aws_ConnectConsole x)\<rparr>)
                 (mc_AwsPrivateLink cluster)\<rparr>
             else update);
          update =
            (if \<not> isAzurePrivateLinkStructNil (mc_AzurePrivateLink cluster) then
               update\<lparr>cu_AzurePrivateLink := map_option (\<lambda>x.
                 \<lparr>azureSpec_Enabled = ValueBool (azure_Enabled x),
                  azureSpec_AllowedSubscriptions =
                    TypeListToStringSlice String (azure_AllowedSubscriptions x),
                  azureSpec_ConnectConsole = ValueBool (azure_ConnectConsole x)\<rparr>)
                 (mc_AzurePrivateLink cluster)\<rparr>
             else update);
          update =
            (if \<not> isGcpPrivateServiceConnectStructNil (mc_GcpPrivateServiceConnect cluster) then
               update\<lparr>cu_GcpPrivateServiceConnect := map_option (\<lambda>x.
                 \<lparr>gcpSpec_Enabled = ValueBool (gcp_Enabled x),
                  gcpSpec_GlobalAccessEnabled = ValueBool (gcp_GlobalAccessEnabled x),
                  gcpSpec_ConsumerAcceptList =
                    gcpConnectConsumerModelToStruct (gcp_ConsumerAcceptList x)\<rparr>)
                 (mc_GcpPrivateServiceConnect cluster)\<rparr>
             else update);
          update =
            (if \<not> isMtlsNil (any_KafkaAPI (mc_KafkaAPI cluster)) then
               update\<lparr>cu_KafkaApi := map_option (\<lambda>x.
                 \<lparr>kafkaSpec_Mtls = toMtlsSpec String (kafka_Mtls x)\<rparr>) (mc_KafkaAPI cluster)\<rparr>
             else update);
          update =
            (if \<not> isMtlsNil (any_HTTPProxy (mc_HTTPProxy cluster)) then
               update\<lparr>cu_HttpProxy := map_option (\<lambda>x.
                 \<lparr>httpSpec_Mtls = toMtlsSpec String (http_Mtls x)\<rparr>) (mc_HTTPProxy cluster)\<rparr>
             else update);
          update =
            (if \<not> isMtlsNil (any_SchemaRegistry (mc_SchemaRegistry cluster)) then
               update\<lparr>cu_SchemaRegistry := map_option (\<lambda>x.
                 \<lparr>srSpec_Mtls = toMtlsSpec String (sr_Mtls x)\<rparr>) (mc_SchemaRegistry cluster)\<rparr>
             else update)
      in update)"

text \<open>
  Modelled from the spec: \<open>utils.GenerateProtobufDiffAndUpdateMask\<close>, which
  \<open>generateUpdateRequest\<close> calls and which is not among the sources. The spec's diff
  (section 4.2) walks the fields in a fixed order; a top-level field whose value differs
  is added to the mask and copied from the new record; a nested block that differs in
  presence or in a leaf is added by its root path and copied whole; the identifier is
  always copied into the payload and never added to the mask; identical records give an
  empty mask and a payload that carries the identifier only.
\<close>

definition GenerateProtobufDiffAndUpdateMask ::
    "ClusterUpdate \<Rightarrow> ClusterUpdate \<Rightarrow> ClusterUpdate \<times> FieldMask" where
  "GenerateProtobufDiffAndUpdateMask new old =
     (\<lparr>cu_Id = cu_Id new,
       cu_Name = (if cu_Name new \<noteq> cu_Name old then cu_Name new else []),
       cu_ReadReplicaClusterIds =
         (if cu_ReadReplicaClusterIds new \<noteq> cu_ReadReplicaClusterIds old
          then cu_ReadReplicaClusterIds new else []),
       cu_AwsPrivateLink =
         (if cu_AwsPrivateLink new \<noteq> cu_AwsPrivateLink old then cu_AwsPrivateLink new else None),
       cu_AzurePrivateLink =
         (if cu_AzurePrivateLink new \<noteq> cu_AzurePrivateLink old
          then cu_AzurePrivateLink new else None),
       cu_GcpPrivateServiceConnect =
         (if cu_GcpPrivateServiceConnect new \<noteq> cu_GcpPrivateServiceConnect old
          then cu_GcpPrivateServiceConnect new else None),
       cu_KafkaApi = (if cu_KafkaApi new \<noteq> cu_KafkaApi old then cu_KafkaApi new else None),
       cu_HttpProxy = (if cu_HttpProxy new \<noteq> cu_HttpProxy old then cu_HttpProxy new else None),
       cu_SchemaRegistry =
         (if cu_SchemaRegistry new \<noteq> cu_SchemaRegistry old then cu_SchemaRegistry new else None)\<rparr>,
      \<lparr>Paths =
         (if cu_Name new \<noteq> cu_Name old then [''name''] else [])
         @ (if cu_ReadReplicaClusterIds new \<noteq> cu_ReadReplicaClusterIds old
            then [''read_replica_cluster_ids''] else [])
         @ (if cu_AwsPrivateLink new \<noteq> cu_AwsPrivateLink old then [''aws_private_link''] else [])
         @ (if cu_AzurePrivateLink new \<noteq> cu_AzurePrivateLink old
            then [''azure_private_link''] else [])
         @ (if cu_GcpPrivateServiceConnect new \<noteq> cu_GcpPrivateServiceConnect old
            then [''gcp_private_service_connect''] else [])
         @ (if cu_KafkaApi new \<noteq> cu_KafkaApi old then [''kafka_api''] else [])
         @ (if cu_HttpProxy new \<noteq> cu_HttpProxy old then [''http_proxy''] else [])
         @ (if cu_SchemaRegistry new \<noteq> cu_SchemaRegistry old then [''schema_registry''] else [])\<rparr>)"

definition generateUpdateRequest ::
    "(tf_String \<Rightarrow> string) \<Rightarrow> models_Cluster \<Rightarrow> models_Cluster \<Rightarrow> UpdateClusterRequest" where
  "generateUpdateRequest String plan state =
     (let planUpdate = generateClusterUpdate String plan;
          stateUpdate = generateClusterUpdate String state
      in case GenerateProtobufDiffAndUpdateMask planUpdate stateUpdate of
           (update, fieldmask) \<Rightarrow>
             \<lparr>req_Cluster = update\<lparr>cu_Id := cu_Id planUpdate\<rparr>, req_UpdateMask = fieldmask\<rparr>)"

text \<open>
  \<open>generateModel\<close>. The blocks that follow the struct literal are written one definition
  each, in the order of the source; every one of them takes the \<open>output\<close> built so far
  and returns it, updated or as it was. \<open>cluster\<close> is the message the control plane
  returned, not nil. The error result is nil on every path.
\<close>

definition generateModel_DataplaneApi :: "Cluster \<Rightarrow> models_Cluster \<Rightarrow> models_Cluster" where
  "generateModel_DataplaneApi cluster output =
     (case cl_DataplaneApi cluster of
        None \<Rightarrow> output
      | Some api \<Rightarrow> output\<lparr>mc_ClusterAPIURL := StringValue (dp_Url api)\<rparr>)"

definition generateModel_AwsPrivateLink ::
    "(string list \<Rightarrow> tf_List) \<Rightarrow> Cluster \<Rightarrow> models_Cluster \<Rightarrow> models_Cluster" where
  "generateModel_AwsPrivateLink StringSliceToTypeList cluster output =
     (if \<not> isAwsPrivateLinkSpecNil (cl_AwsPrivateLink cluster) then
        (case cl_AwsPrivateLink cluster of
           None \<Rightarrow> output
         | Some x \<Rightarrow>
             let ap = StringSliceToTypeList (awsStatus_AllowedPrincipals x);
                 ap = (if IsNull ap then ListValueMust [] else ap)
             in output\<lparr>mc_AwsPrivateLink := Some
                  \<lparr>aws_Enabled = BoolValue (awsStatus_Enabled x),
                   aws_ConnectConsole = BoolValue (awsStatus_ConnectConsole x),
                   aws_AllowedPrincipals = ap\<rparr>\<rparr>)
      else output)"

definition generateModel_GcpPrivateServiceConnect :: "Cluster \<Rightarrow> models_Cluster \<Rightarrow> models_Cluster" where
  "generateModel_GcpPrivateServiceConnect cluster output =
     (if \<not> isGcpPrivateServiceConnectSpecNil (cl_GcpPrivateServiceConnect cluster) then
        (case cl_GcpPrivateServiceConnect cluster of
           None \<Rightarrow> output
         | Some x \<Rightarrow>
             output\<lparr>mc_GcpPrivateServiceConnect := Some
               \<lparr>gcp_Enabled = BoolValue (gcpStatus_Enabled x),
                gcp_GlobalAccessEnabled = BoolValue (gcpStatus_GlobalAccessEnabled x),
                gcp_ConsumerAcceptList =
                  gcpConnectConsumerStructToModel (gcpStatus_ConsumerAcceptList x)\<rparr>\<rparr>)
      else output)"

definition generateModel_AzurePrivateLink ::
    "(string list \<Rightarrow> tf_List) \<Rightarrow> Cluster \<Rightarrow> models_Cluster \<Rightarrow> models_Cluster" where
  "generateModel_AzurePrivateLink StringSliceToTypeList cluster output =
     (if \<not> isAzurePrivateLinkSpecNil (cl_AzurePrivateLink cluster) then
        (case cl_AzurePrivateLink cluster of
           None \<Rightarrow> output
         | Some x \<Rightarrow>
             let as = StringSliceToTypeList (azureStatus_AllowedSubscriptions x);
                 as = (if IsNull as then ListValueMust [] else as)
             in output\<lparr>mc_AzurePrivateLink := Some
                  \<lparr>azure_Enabled = BoolValue (azureStatus_Enabled x),
                   azure_ConnectConsole = BoolValue (azureStatus_ConnectConsole x),
                   azure_AllowedSubscriptions = as\<rparr>\<rparr>)
      else output)"

definition generateModel_KafkaAPI ::
    "(string list \<Rightarrow> tf_List) \<Rightarrow> Cluster \<Rightarrow> models_Cluster \<Rightarrow> models_Cluster" where
  "generateModel_KafkaAPI StringSliceToTypeList cluster output =
     (let kAPI = toMtlsModel StringSliceToTypeList (GetKafkaApi_GetMtls cluster)
      in if kAPI \<noteq> None then output\<lparr>mc_KafkaAPI := Some \<lparr>kafka_Mtls = kAPI\<rparr>\<rparr> else output)"

definition generateModel_HTTPProxy ::
    "(string list \<Rightarrow> tf_List) \<Rightarrow> Cluster \<Rightarrow> models_Cluster \<Rightarrow> models_Cluster" where
  "generateModel_HTTPProxy StringSliceToTypeList cluster output =
     (let ht = toMtlsModel StringSliceToTypeList (GetHttpProxy_GetMtls cluster)
      in if ht \<noteq> None then output\<lparr>mc_HTTPProxy := Some \<lparr>http_Mtls = ht\<rparr>\<rparr> else output)"

definition generateModel_SchemaRegistry ::
    "(string list \<Rightarrow> tf_List) \<Rightarrow> Cluster \<Rightarrow> models_Cluster \<Rightarrow> models_Cluster" where
  "generateModel_SchemaRegistry StringSliceToTypeList cluster output =
     (let sr = toMtlsModel StringSliceToTypeList (GetSchemaRegistry_GetMtls cluster)
      in if sr \<noteq> None then output\<lparr>mc_SchemaRegistry := Some \<lparr>sr_Mtls = sr\<rparr>\<rparr> else output)"

definition generateModel ::
    "(string list \<Rightarrow> tf_List) \<Rightarrow> models_Cluster \<Rightarrow> Cluster \<Rightarrow> error + models_Cluster" where
  "generateModel StringSliceToTypeList cfg cluster =
     (let output = \<lparr>mc_Name = StringValue (cl_Name cluster),
                     mc_ID = StringValue (cl_Id cluster),
                     mc_ConnectionType =
                       StringValue (ConnectionTypeToString (cl_ConnectionType cluster)),
                     mc_CloudProvider =
                       StringValue (CloudProviderToString (cl_CloudProvider cluster)),
                     mc_ClusterType = StringValue (ClusterTypeToString (cl_Type cluster)),
                     mc_RedpandaVersion = mc_RedpandaVersion cfg,
                     mc_ThroughputTier = StringValue (cl_ThroughputTier cluster),
                     mc_Region = StringValue (cl_Region cluster),
                     mc_Zones = StringSliceToTypeList (cl_Zones cluster),
                     mc_AllowDeletion = mc_AllowDeletion cfg,
                     mc_Tags = mc_Tags cfg,
                     mc_ResourceGroupID = StringValue (cl_ResourceGroupId cluster),
                     mc_NetworkID = StringValue (cl_NetworkId cluster),
                     mc_ClusterAPIURL = Null,
                     mc_ReadReplicaClusterIDs =
                       StringSliceToTypeList (cl_ReadReplicaClusterIds cluster),
                     mc_AwsPrivateLink = None, mc_GcpPrivateServiceConnect = None,
                     mc_AzurePrivateLink = None, mc_KafkaAPI = None, mc_HTTPProxy = None,
                     mc_SchemaRegistry = None\<rparr>;
          output = generateModel_DataplaneApi cluster output;
          output = generateModel_AwsPrivateLink StringSliceToTypeList cluster output;
          output = generateModel_GcpPrivateServiceConnect cluster output;
          output = generateModel_AzurePrivateLink StringSliceToTypeList cluster output;
          output = generateModel_KafkaAPI StringSliceToTypeList cluster output;
          output = generateModel_HTTPProxy StringSliceToTypeList cluster output;
          output = generateModel_SchemaRegistry StringSliceToTypeList cluster output
      in Inr output)"

text \<open>Concrete inputs of \<open>cluster.go\<close>, used to run it.\<close>

definition explicitDefaults :: AwsPrivateLink where
  "explicitDefaults =
     \<lparr>aws_Enabled = Value False, aws_ConnectConsole = Value False,
      aws_AllowedPrincipals = Value []\<rparr>"

definition planCluster :: models_Cluster where
  "planCluster =
     \<lparr>mc_Name = Value ''c1'', mc_ID = Value ''id-1'', mc_ConnectionType = Value ''public'',
      mc_CloudProvider = Value ''aws'', mc_ClusterType = Value ''dedicated'',
      mc_RedpandaVersion = Null, mc_ThroughputTier = Value ''tier-1-aws'',
      mc_Region = Value ''us-east-1'', mc_Zones = Null, mc_AllowDeletion = Value True,
      mc_Tags = Null, mc_ResourceGroupID = Value ''rg-1'', mc_NetworkID = Value ''net-1'',
      mc_ClusterAPIURL = Null, mc_ReadReplicaClusterIDs = Null,
      mc_AwsPrivateLink = Some explicitDefaults, mc_GcpPrivateServiceConnect = None,
      mc_AzurePrivateLink = None, mc_KafkaAPI = None, mc_HTTPProxy = None,
      mc_SchemaRegistry = None\<rparr>"

definition backendCluster :: Cluster where
  "backendCluster =
     \<lparr>cl_Id = ''id-1'', cl_Name = ''c1'',
      cl_ConnectionType = Cluster_CONNECTION_TYPE_PUBLIC,
      cl_CloudProvider = CloudProvider_CLOUD_PROVIDER_AWS, cl_Type = Cluster_TYPE_DEDICATED,
      cl_ThroughputTier = ''tier-1-aws'', cl_Region = ''us-east-1'', cl_Zones = [],
      cl_ResourceGroupId = ''rg-1'', cl_NetworkId = ''net-1'', cl_ReadReplicaClusterIds = [],
      cl_DataplaneApi = None,
      cl_AwsPrivateLink = Some \<lparr>awsStatus_Enabled = False, awsStatus_ConnectConsole = False,
                                 awsStatus_AllowedPrincipals = []\<rparr>,
      cl_GcpPrivateServiceConnect = None,
      cl_AzurePrivateLink = Some \<lparr>azureStatus_Enabled = True, azureStatus_ConnectConsole = False,
                                   azureStatus_AllowedSubscriptions = []\<rparr>,
      cl_KafkaApi = None, cl_HttpProxy = None, cl_SchemaRegistry = None\<rparr>"

definition enabledOnly :: AWSPrivateLinkStatus where
  "enabledOnly =
     \<lparr>awsStatus_Enabled = True, awsStatus_ConnectConsole = False,
      awsStatus_AllowedPrincipals = []\<rparr>"

section \<open>The provider's Configure\<close>

text \<open>
  Diagnostics of the plugin framework: \<open>Append\<close> (and \<open>AddError\<close>, which appends one error)
  leaves out a diagnostic the list already holds.
\<close>

datatype Severity = SeverityError | SeverityWarning

record Diagnostic =
  diag_Severity :: Severity
  diag_Summary :: string
  diag_Detail :: string

definition HasError :: "Diagnostic list \<Rightarrow> bool" where
  "HasError diags = list_ex (\<lambda>d. diag_Severity d = SeverityError) diags"

definition Append :: "Diagnostic list \<Rightarrow> Diagnostic list \<Rightarrow> Diagnostic list" where
  "Append diags new = foldl (\<lambda>acc d. if d \<in> set acc then acc else acc @ [d]) diags new"

definition AddError :: "string \<Rightarrow> string \<Rightarrow> Diagnostic list \<Rightarrow> Diagnostic list" where
  "AddError summary detail diags =
     Append diags [\<lparr>diag_Severity = SeverityError, diag_Summary = summary, diag_Detail = detail\<rparr>]"

record models_Redpanda =
  rp_ClientID :: tf_String
  rp_ClientSecret :: tf_String

record ResourceData =
  rd_ClientID :: string
  rd_ClientSecret :: string
  rd_Version :: string

record DatasourceData =
  dd_ClientID :: string
  dd_ClientSecret :: string
  dd_Version :: string

record ConfigureResponse =
  resp_Diagnostics :: "Diagnostic list"
  resp_ResourceData :: "ResourceData option"
  resp_DataSourceData :: "DatasourceData option"

record Redpanda =
  version :: string

text \<open>
  \<open>Configure\<close>. \<open>Getenv\<close> is \<open>os.Getenv\<close> (the empty string for a variable that is not
  set); \<open>config_Get\<close> is what \<open>request.Config.Get\<close> yields, the configuration it filled
  and its diagnostics. Each \<open>switch\<close> sets its variable and, in the default case, adds
  an error; the variable is the empty string there.
\<close>

definition Configure ::
    "Redpanda \<Rightarrow> (string \<Rightarrow> string) \<Rightarrow> models_Redpanda \<times> Diagnostic list
      \<Rightarrow> ConfigureResponse \<Rightarrow> ConfigureResponse" where
  "Configure r Getenv config_Get response =
     (case config_Get of (conf, diags) \<Rightarrow>
        let response = response\<lparr>resp_Diagnostics := Append (resp_Diagnostics response) diags\<rparr>
        in if HasError (resp_Diagnostics response) then response
           else
             let cfgID = ValueString (rp_ClientID conf);
                 envID = Getenv ''CLIENT_ID'';
                 (ident, response) =
                   (if cfgID = [] \<and> envID \<noteq> [] then (envID, response)
                    else if cfgID \<noteq> [] \<and> envID = [] then (cfgID, response)
                    else if cfgID \<noteq> [] \<and> envID \<noteq> [] then (cfgID, response)
                    else ([], response\<lparr>resp_Diagnostics :=
                           AddError ''no client id'' ''no client id found''
                             (resp_Diagnostics response)\<rparr>));
                 cfgSec = ValueString (rp_ClientSecret conf);
                 envSec = Getenv ''CLIENT_SECRET'';
                 (sec, response) =
                   (if cfgSec = [] \<and> envSec \<noteq> [] then (envSec, response)
                    else if cfgSec \<noteq> [] \<and> envSec = [] then (cfgSec, response)
                    else if cfgSec \<noteq> [] \<and> envSec \<noteq> [] then (cfgSec, response)
                    else ([], response\<lparr>resp_Diagnostics :=
                           AddError ''no client secret'' ''no client secret found''
                             (resp_Diagnostics response)\<rparr>))
             in response
                  \<lparr>resp_ResourceData :=
                     Some \<lparr>rd_ClientID = ident, rd_ClientSecret = sec, rd_Version = version r\<rparr>,
                   resp_DataSourceData :=
                     Some \<lparr>dd_ClientID = ValueString (rp_ClientID conf),
                           dd_ClientSecret = ValueString (rp_ClientSecret conf),
                           dd_Version = version r\<rparr>\<rparr>)"

text \<open>Concrete inputs of \<open>Configure\<close>.\<close>

definition emptyResponse :: ConfigureResponse where
  "emptyResponse =
     \<lparr>resp_Diagnostics = [], resp_ResourceData = None, resp_DataSourceData = None\<rparr>"

definition envBoth :: "string \<Rightarrow> string" where
  "envBoth name =
     (if name = ''CLIENT_ID'' then ''env-id''
      else if name = ''CLIENT_SECRET'' then ''env-secret'' else [])"

definition envNone :: "string \<Rightarrow> string" where
  "envNone name = []"

section \<open>Topic configurations\<close>

text \<open>
  The source enum of a topic configuration: the members the conversion names, and any
  other number, which the conversion answers with its default.
\<close>

datatype Topic_Configuration_Source =
  Topic_Configuration_SOURCE_UNSPECIFIED
  | Topic_Configuration_SOURCE_DYNAMIC_TOPIC_CONFIG
  | Topic_Configuration_SOURCE_DYNAMIC_BROKER_CONFIG
  | Topic_Configuration_SOURCE_DYNAMIC_DEFAULT_BROKER_CONFIG
  | Topic_Configuration_SOURCE_STATIC_BROKER_CONFIG
  | Topic_Configuration_SOURCE_DEFAULT_CONFIG
  | Topic_Configuration_SOURCE_DYNAMIC_BROKER_LOGGER_CONFIG
  | Topic_Configuration_SOURCE_other int

definition TopicConfigurationSourceToString :: "Topic_Configuration_Source \<Rightarrow> string" where
  "TopicConfigurationSourceToString e =
     (case e of
        Topic_Configuration_SOURCE_UNSPECIFIED \<Rightarrow> ''SOURCE_UNSPECIFIED''
      | Topic_Configuration_SOURCE_DYNAMIC_TOPIC_CONFIG \<Rightarrow> ''DYNAMIC_TOPIC_CONFIG''
      | Topic_Configuration_SOURCE_DYNAMIC_BROKER_CONFIG \<Rightarrow> ''DYNAMIC_BROKER_CONFIG''
      | Topic_Configuration_SOURCE_DYNAMIC_DEFAULT_BROKER_CONFIG \<Rightarrow> ''DYNAMIC_DEFAULT_BROKER_CONFIG''
      | Topic_Configuration_SOURCE_STATIC_BROKER_CONFIG \<Rightarrow> ''STATIC_BROKER_CONFIG''
      | Topic_Configuration_SOURCE_DEFAULT_CONFIG \<Rightarrow> ''DEFAULT_CONFIG''
      | Topic_Configuration_SOURCE_DYNAMIC_BROKER_LOGGER_CONFIG \<Rightarrow> ''DYNAMIC_BROKER_LOGGER_CONFIG''
      | Topic_Configuration_SOURCE_other n \<Rightarrow> ''UNKNOWN'')"

record Topic_Configuration_ConfigSynonym =
  syn_Name :: string
  syn_Value :: string
  syn_Source :: Topic_Configuration_Source

record Topic_Configuration =
  tc_Name :: string
  tc_Type :: string
  tc_Value :: string
  tc_Source :: Topic_Configuration_Source
  tc_IsReadOnly :: bool
  tc_IsSensitive :: bool
  tc_ConfigSynonyms :: "Topic_Configuration_ConfigSynonym list"
  tc_Documentation :: string

text \<open>
  The records of package models. A slice of pointers is a list of \<open>option\<close>s: \<open>None\<close> is
  the nil pointer \<open>make\<close> fills a new slice with.
\<close>

record TopicConfigSynonym =
  msyn_Name :: tf_String
  msyn_Value :: tf_String
  msyn_Source :: tf_String

record TopicConfiguration =
  mtc_Name :: tf_String
  mtc_Type :: tf_String
  mtc_Value :: tf_String
  mtc_Source :: tf_String
  mtc_IsReadOnly :: tf_Bool
  mtc_IsSensitive :: tf_Bool
  mtc_ConfigSynonyms :: "TopicConfigSynonym option list"
  mtc_Documentation :: tf_String

definition make :: "nat \<Rightarrow> 'a option list" where
  "make n = replicate n None"

text \<open>
  The element each round of the two loops appends. The entries of the input slices are
  the messages the data plane returned, not nil.
\<close>

definition toTopicConfigSynonym :: "Topic_Configuration_ConfigSynonym \<Rightarrow> TopicConfigSynonym" where
  "toTopicConfigSynonym v =
     \<lparr>msyn_Name = StringValue (syn_Name v),
      msyn_Value = StringValue (syn_Value v),
      msyn_Source = StringValue (TopicConfigurationSourceToString (syn_Source v))\<rparr>"

definition ConfigSynonymsToSlice ::
    "Topic_Configuration_ConfigSynonym list \<Rightarrow> TopicConfigSynonym option list" where
  "ConfigSynonymsToSlice synonyms =
     foldl (\<lambda>output v. output @ [Some (toTopicConfigSynonym v)])
       (make (length synonyms)) synonyms"

definition toTopicConfiguration :: "Topic_Configuration \<Rightarrow> TopicConfiguration" where
  "toTopicConfiguration v =
     \<lparr>mtc_Name = StringValue (tc_Name v),
      mtc_Type = StringValue (tc_Type v),
      mtc_Value = StringValue (tc_Value v),
      mtc_Source = StringValue (TopicConfigurationSourceToString (tc_Source v)),
      mtc_IsReadOnly = BoolValue (tc_IsReadOnly v),
      mtc_IsSensitive = BoolValue (tc_IsSensitive v),
      mtc_ConfigSynonyms = ConfigSynonymsToSlice (tc_ConfigSynonyms v),
      mtc_Documentation = StringValue (tc_Documentation v)\<rparr>"

definition TopicConfigurationToSlice :: "Topic_Configuration list \<Rightarrow> TopicConfiguration option list" where
  "TopicConfigurationToSlice cfg =
     foldl (\<lambda>output v. output @ [Some (toTopicConfiguration v)]) (make (length cfg)) cfg"

section \<open>Properties of the poller\<close>

declare poll.simps [simp del]

lemma HasPrefix_iff: "HasPrefix s pre \<longleftrightarrow> (\<exists>v. s = pre @ v)"
proof
  assume "HasPrefix s pre"
  then have "s = pre @ drop (length pre) s"
    by (metis HasPrefix_def append_take_drop_id)
  then show "\<exists>v. s = pre @ v" ..
next
  assume "\<exists>v. s = pre @ v"
  then show "HasPrefix s pre" by (auto simp: HasPrefix_def)
qed

lemma Contains_iff: "Contains s substr \<longleftrightarrow> (\<exists>u v. s = u @ substr @ v)"
proof (induction s)
  case Nil
  then show ?case by auto
next
  case (Cons c s)
  show ?case
  proof
    assume "Contains (c # s) substr"
    then consider "HasPrefix (c # s) substr" | "Contains s substr" by auto
    then show "\<exists>u v. c # s = u @ substr @ v"
    proof cases
      case 1
      then obtain v where "c # s = substr @ v" by (auto simp: HasPrefix_iff)
      then have "c # s = [] @ substr @ v" by simp
      then show ?thesis by blast
    next
      case 2
      then obtain u v where "s = u @ substr @ v" using Cons.IH by blast
      then have "c # s = (c # u) @ substr @ v" by simp
      then show ?thesis by blast
    qed
  next
    assume "\<exists>u v. c # s = u @ substr @ v"
    then obtain u v where uv: "c # s = u @ substr @ v" by blast
    show "Contains (c # s) substr"
    proof (cases u)
      case Nil
      then have "HasPrefix (c # s) substr" using uv by (auto simp: HasPrefix_iff)
      then show ?thesis by simp
    next
      case (Cons a u')
      then have "s = u' @ substr @ v" using uv by simp
      then have "Contains s substr" using Cons.IH by blast
      then show ?thesis by simp
    qed
  qed
qed

text \<open>
  C8. \<open>IsNotFound\<close> holds of an error exactly when its message has one of the substrings
  "not found", "NotFound" or "404": the message is all it reads.
\<close>

theorem IsNotFound_substring:
  "IsNotFound err \<longleftrightarrow>
     (\<exists>u v. Error err = u @ ''not found'' @ v)
     \<or> (\<exists>u v. Error err = u @ ''NotFound'' @ v)
     \<or> (\<exists>u v. Error err = u @ ''404'' @ v)"
  by (simp add: IsNotFound_def Contains_iff)

subsection \<open>One iteration of the loop\<close>

lemma poll_fetch_error:
  "client (GetId op) (calls w) = (d, Inl err) \<Longrightarrow>
   poll client op timeout startTime w = (Some err, w\<lparr>now := now w + int d, calls := Suc (calls w)\<rparr>)"
  by (subst poll.simps) (simp add: GetOperation_def)

lemma poll_fetch_terminal:
  "client (GetId op) (calls w) = (d, Inr o1) \<Longrightarrow> CheckOpsState o1 \<Longrightarrow>
   poll client op timeout startTime w =
     ((case GetError o1 of
         None \<Rightarrow> None
       | Some st \<Rightarrow>
           if IsNotFound (errors_New (Message st))
           then Some (fmt_Errorf (''operation failed: '' @ Message st)) else None),
      w\<lparr>now := now w + int d, calls := Suc (calls w)\<rparr>)"
  by (subst poll.simps) (simp add: GetOperation_def GetMessage_def split: option.splits)

lemma poll_fetch_timeout:
  "client (GetId op) (calls w) = (d, Inr o1) \<Longrightarrow> \<not> CheckOpsState o1 \<Longrightarrow>
   now w + int d - startTime > timeout \<Longrightarrow>
   poll client op timeout startTime w =
     (Some (fmt_Errorf ''timeout reached''), w\<lparr>now := now w + int d, calls := Suc (calls w)\<rparr>)"
  by (subst poll.simps) (simp add: GetOperation_def Since_def)

lemma poll_fetch_retry:
  "client (GetId op) (calls w) = (d, Inr o1) \<Longrightarrow> \<not> CheckOpsState o1 \<Longrightarrow>
   \<not> now w + int d - startTime > timeout \<Longrightarrow>
   poll client op timeout startTime w =
     poll client op timeout startTime
       (Sleep (10 * Second) (w\<lparr>now := now w + int d, calls := Suc (calls w)\<rparr>))"
  by (subst poll.simps) (simp add: GetOperation_def Since_def)

lemma poll_cases:
  obtains (err) d err where "client (GetId op) (calls w) = (d, Inl err)"
  | (terminal) d o1 where "client (GetId op) (calls w) = (d, Inr o1)" "CheckOpsState o1"
  | (timeout) d o1 where "client (GetId op) (calls w) = (d, Inr o1)" "\<not> CheckOpsState o1"
      "now w + int d - startTime > timeout"
  | (retry) d o1 where "client (GetId op) (calls w) = (d, Inr o1)" "\<not> CheckOpsState o1"
      "\<not> now w + int d - startTime > timeout"
  by (cases "client (GetId op) (calls w)"; cases "snd (client (GetId op) (calls w))") auto


subsection \<open>The whole loop\<close>

lemma poll_sleeps:
  "\<exists>k. sleeps (snd (poll client op timeout startTime w)) = sleeps w @ replicate k (10 * Second)
     \<and> calls (snd (poll client op timeout startTime w)) = calls w + Suc k"
proof (induction client op timeout startTime w rule: poll.induct)
  case (1 client op timeout startTime w)
  show ?case
  proof (cases rule: poll_cases [where client=client and op=op and w=w and startTime=startTime and timeout=timeout])
    case (err d err)
    then show ?thesis by (simp add: poll_fetch_error)
  next
    case (terminal d o1)
    then show ?thesis by (simp add: poll_fetch_terminal)
  next
    case (timeout d o1)
    then show ?thesis by (simp add: poll_fetch_timeout)
  next
    case (retry d o1)
    let ?w1 = "w\<lparr>now := now w + int d, calls := Suc (calls w)\<rparr>"
    have g: "(Inr o1, ?w1) = GetOperation client (GetId op) w"
      using retry(1) by (simp add: GetOperation_def)
    have s: "\<not> timeout < Since startTime ?w1"
      using retry(3) by (simp add: Since_def)
    from "1.IH" [OF g refl retry(2) s]
    obtain k where k: "sleeps (snd (poll client op timeout startTime (Sleep (10 * Second) ?w1)))
          = sleeps (Sleep (10 * Second) ?w1) @ replicate k (10 * Second)"
        "calls (snd (poll client op timeout startTime (Sleep (10 * Second) ?w1)))
          = calls (Sleep (10 * Second) ?w1) + Suc k"
      by blast
    have e: "poll client op timeout startTime w = poll client op timeout startTime (Sleep (10 * Second) ?w1)"
      using retry by (simp add: poll_fetch_retry)
    have "sleeps (snd (poll client op timeout startTime w)) = sleeps w @ replicate (Suc k) (10 * Second)"
      using k(1) e by (simp add: Sleep_def replicate_app_Cons_same)
    moreover have "calls (snd (poll client op timeout startTime w)) = calls w + Suc (Suc k)"
      using k(2) e by (simp add: Sleep_def)
    ultimately show ?thesis by blast
  qed
qed

lemma poll_nonterminal_timeout:
  assumes "\<forall>n. \<exists>d o1. client (GetId op) n = (d, Inr o1) \<and> \<not> CheckOpsState o1"
  shows "fst (poll client op timeout startTime w) = Some (fmt_Errorf ''timeout reached'')
    \<and> timeout < now (snd (poll client op timeout startTime w)) - startTime"
  using assms
proof (induction client op timeout startTime w rule: poll.induct)
  case (1 client op timeout startTime w)
  from "1.prems" obtain d o1 where c: "client (GetId op) (calls w) = (d, Inr o1)" "\<not> CheckOpsState o1"
    by blast
  show ?case
  proof (cases "now w + int d - startTime > timeout")
    case True
    then show ?thesis using c by (simp add: poll_fetch_timeout)
  next
    case False
    have g: "(Inr o1, w\<lparr>now := now w + int d, calls := Suc (calls w)\<rparr>) = GetOperation client (GetId op) w"
      using c(1) by (simp add: GetOperation_def)
    have s: "\<not> timeout < Since startTime (w\<lparr>now := now w + int d, calls := Suc (calls w)\<rparr>)"
      using False by (simp add: Since_def)
    note ih = "1.IH" [OF g refl c(2) s "1.prems"]
    then show ?thesis using c False by (simp add: poll_fetch_retry)
  qed
qed

lemma poll_timeout_nonterminal:
  assumes "fst (poll client op timeout startTime w) = Some (fmt_Errorf ''timeout reached'')"
    and "calls w \<le> n" and "n < calls (snd (poll client op timeout startTime w))"
    and "snd (client (GetId op) n) = Inr o2"
  shows "\<not> CheckOpsState o2"
  using assms
proof (induction client op timeout startTime w rule: poll.induct)
  case (1 client op timeout startTime w)
  show ?case
  proof (cases rule: poll_cases [where client=client and op=op and w=w and startTime=startTime and timeout=timeout])
    case (err d err)
    then have "n = calls w" using "1.prems" by (simp add: poll_fetch_error)
    then show ?thesis using err "1.prems"(4) by simp
  next
    case (terminal d o1)
    then show ?thesis using "1.prems"(1)
      by (simp add: poll_fetch_terminal fmt_Errorf_def split: option.splits if_splits)
  next
    case (timeout d o1)
    then have "n = calls w" using "1.prems" by (simp add: poll_fetch_timeout)
    then show ?thesis using timeout "1.prems"(4) by simp
  next
    case (retry d o1)
    let ?w2 = "Sleep (10 * Second) (w\<lparr>now := now w + int d, calls := Suc (calls w)\<rparr>)"
    have g: "(Inr o1, w\<lparr>now := now w + int d, calls := Suc (calls w)\<rparr>) = GetOperation client (GetId op) w"
      using retry(1) by (simp add: GetOperation_def)
    have s: "\<not> timeout < Since startTime (w\<lparr>now := now w + int d, calls := Suc (calls w)\<rparr>)"
      using retry(3) by (simp add: Since_def)
    have e: "poll client op timeout startTime w = poll client op timeout startTime ?w2"
      using retry by (simp add: poll_fetch_retry)
    show ?thesis
    proof (cases "n = calls w")
      case True
      then show ?thesis using retry "1.prems"(4) by simp
    next
      case False
      then have n: "calls ?w2 \<le> n" using "1.prems"(2) by (simp add: Sleep_def)
      show ?thesis
        using "1.IH" [OF g refl retry(2) s] "1.prems" n e by simp
    qed
  qed
qed

text \<open>
  The loop stops at the first check that finds the deadline passed: either it returned
  after its first fetch, or the check before its last sleep still found the elapsed time
  within the timeout.
\<close>

lemma poll_prompt:
  "(calls (snd (poll client op timeout startTime w)) = Suc (calls w)
      \<and> now (snd (poll client op timeout startTime w)) = now w + int (fst (client (GetId op) (calls w))))
   \<or> (Suc (calls w) < calls (snd (poll client op timeout startTime w))
      \<and> now (snd (poll client op timeout startTime w))
          - int (fst (client (GetId op) (calls (snd (poll client op timeout startTime w)) - 1)))
          - 10 * Second - startTime \<le> timeout)"
proof (induction client op timeout startTime w rule: poll.induct)
  case (1 client op timeout startTime w)
  show ?case
  proof (cases rule: poll_cases [where client=client and op=op and w=w and startTime=startTime and timeout=timeout])
    case (err d err)
    then show ?thesis by (simp add: poll_fetch_error)
  next
    case (terminal d o1)
    then show ?thesis by (simp add: poll_fetch_terminal)
  next
    case (timeout d o1)
    then show ?thesis by (simp add: poll_fetch_timeout)
  next
    case (retry d o1)
    let ?w2 = "Sleep (10 * Second) (w\<lparr>now := now w + int d, calls := Suc (calls w)\<rparr>)"
    let ?R = "poll client op timeout startTime ?w2"
    have g: "(Inr o1, w\<lparr>now := now w + int d, calls := Suc (calls w)\<rparr>) = GetOperation client (GetId op) w"
      using retry(1) by (simp add: GetOperation_def)
    have s: "\<not> timeout < Since startTime (w\<lparr>now := now w + int d, calls := Suc (calls w)\<rparr>)"
      using retry(3) by (simp add: Since_def)
    have e: "poll client op timeout startTime w = ?R"
      using retry by (simp add: poll_fetch_retry)
    have ih: "(calls (snd ?R) = Suc (calls ?w2)
      \<and> now (snd ?R) = now ?w2 + int (fst (client (GetId op) (calls ?w2))))
   \<or> (Suc (calls ?w2) < calls (snd ?R)
      \<and> now (snd ?R) - int (fst (client (GetId op) (calls (snd ?R) - 1)))
          - 10 * Second - startTime \<le> timeout)"
      by (rule "1.IH" [OF g refl retry(2) s])
    then show ?thesis
    proof
      assume a: "calls (snd ?R) = Suc (calls ?w2)
         \<and> now (snd ?R) = now ?w2 + int (fst (client (GetId op) (calls ?w2)))"
      then have "now (snd ?R) - int (fst (client (GetId op) (calls (snd ?R) - 1))) - 10 * Second - startTime
          = now w + int d - startTime"
        by (simp add: Sleep_def)
      then show ?thesis using a retry(3) e by (simp add: Sleep_def)
    next
      assume "Suc (calls ?w2) < calls (snd ?R)
      \<and> now (snd ?R) - int (fst (client (GetId op) (calls (snd ?R) - 1)))
          - 10 * Second - startTime \<le> timeout"
      then show ?thesis using e by (simp add: Sleep_def)
    qed
  qed
qed

lemma CheckOpsState_iff:
  "CheckOpsState op \<longleftrightarrow>
     GetState op = Operation_STATE_COMPLETED \<or> GetState op = Operation_STATE_FAILED"
  by (simp add: CheckOpsState_def split: Operation_State.splits)

text \<open>
  C4. An operation that is already COMPLETED or FAILED is settled on the spot: the world
  is left as it was (no \<open>GetOperation\<close> call, no sleep, no clock reading), the result is
  success when the operation carries no error payload, and an error with the payload's
  message when it carries one.
\<close>

theorem AreWeDoneYet_already_terminal:
  assumes "GetState op = Operation_STATE_COMPLETED \<or> GetState op = Operation_STATE_FAILED"
    and "AreWeDoneYet client op timeout w = (r, w')"
  shows "w' = w \<and> calls w' = calls w
    \<and> (GetError op = None \<longrightarrow> r = None)
    \<and> (\<forall>st. GetError op = Some st \<longrightarrow> r = Some (errorString (''operation failed: '' @ Message st)))"
proof -
  have t: "CheckOpsState op" using assms(1) by (simp add: CheckOpsState_iff)
  show ?thesis
    using assms(2) t
    by (cases "GetError op") (auto simp: AreWeDoneYet_def fmt_Errorf_def GetMessage_def)
qed

theorem AreWeDoneYet_already_terminal_witness:
  "AreWeDoneYet (constClient runningOp) completedOp (900 * Second) world0 = (None, world0)
   \<and> AreWeDoneYet (constClient runningOp) (failedOp ''quota exceeded'') (900 * Second) world0
       = (Some (errorString ''operation failed: quota exceeded''), world0)"
proof -
  have s1: "GetState completedOp = Operation_STATE_COMPLETED \<or> GetState completedOp = Operation_STATE_FAILED"
    by (simp add: GetState_def completedOp_def)
  have s2: "GetState (failedOp ''quota exceeded'') = Operation_STATE_COMPLETED
      \<or> GetState (failedOp ''quota exceeded'') = Operation_STATE_FAILED"
    by (simp add: GetState_def failedOp_def)
  have e1: "GetError completedOp = None" by (simp add: GetError_def completedOp_def)
  have e2: "GetError (failedOp ''quota exceeded'') = Some \<lparr>Message = ''quota exceeded''\<rparr>"
    by (simp add: GetError_def failedOp_def)
  obtain r1 w1 where a1: "AreWeDoneYet (constClient runningOp) completedOp (900 * Second) world0 = (r1, w1)"
    by (cases "AreWeDoneYet (constClient runningOp) completedOp (900 * Second) world0")
  obtain r2 w2 where a2: "AreWeDoneYet (constClient runningOp) (failedOp ''quota exceeded'') (900 * Second) world0 = (r2, w2)"
    by (cases "AreWeDoneYet (constClient runningOp) (failedOp ''quota exceeded'') (900 * Second) world0")
  from AreWeDoneYet_already_terminal [OF s1 a1] e1 have "r1 = None \<and> w1 = world0" by simp
  moreover from AreWeDoneYet_already_terminal [OF s2 a2] e2
  have "r2 = Some (errorString ''operation failed: quota exceeded'') \<and> w2 = world0" by simp
  ultimately show ?thesis using a1 a2 by simp
qed


text \<open>
  C5. When the operation handed in is not terminal and every fetch returns a non-terminal
  operation, the call returns the timeout error, and the elapsed time then exceeds the
  timeout; it returns at the first check that finds it so (either after its first fetch, or
  the check before its last sleep was still within the timeout). A call that returns the
  timeout error has seen no terminal operation, neither the one handed in nor a fetched
  one. Between two successive fetches there is exactly one sleep, of 10 seconds.
\<close>

theorem AreWeDoneYet_timeout:
  assumes "AreWeDoneYet client op timeout w = (r, w')"
  shows "(\<not> CheckOpsState op
        \<and> (\<forall>n. \<exists>d o1. client (GetId op) n = (d, Inr o1) \<and> \<not> CheckOpsState o1)
      \<longrightarrow> r = Some (errorString ''timeout reached'') \<and> timeout < now w' - now w
        \<and> (calls w' = Suc (calls w)
           \<or> now w' - int (fst (client (GetId op) (calls w' - 1))) - 10 * Second - now w \<le> timeout))
    \<and> (r = Some (errorString ''timeout reached'')
      \<longrightarrow> \<not> CheckOpsState op
        \<and> (\<forall>n o2. calls w \<le> n \<and> n < calls w' \<and> snd (client (GetId op) n) = Inr o2
              \<longrightarrow> \<not> CheckOpsState o2))
    \<and> (\<not> CheckOpsState op
      \<longrightarrow> (\<exists>k. sleeps w' = sleeps w @ replicate k (10 * Second) \<and> calls w' = calls w + Suc k))"
proof (cases "CheckOpsState op")
  case True
  then have "r \<noteq> Some (errorString ''timeout reached'')"
    using assms by (cases "GetError op") (auto simp: AreWeDoneYet_def fmt_Errorf_def)
  then show ?thesis using True by simp
next
  case False
  then have p: "poll client op timeout (now w) w = (r, w')"
    using assms by (simp add: AreWeDoneYet_def)
  have a: "(\<forall>n. \<exists>d o1. client (GetId op) n = (d, Inr o1) \<and> \<not> CheckOpsState o1)
      \<longrightarrow> r = Some (errorString ''timeout reached'') \<and> timeout < now w' - now w"
    using poll_nonterminal_timeout [of client op timeout "now w" w] p
    by (simp add: fmt_Errorf_def)
  have b: "calls w' = Suc (calls w)
      \<or> now w' - int (fst (client (GetId op) (calls w' - 1))) - 10 * Second - now w \<le> timeout"
    using poll_prompt [of client op timeout "now w" w] p by auto
  have c: "r = Some (errorString ''timeout reached'')
      \<longrightarrow> (\<forall>n o2. calls w \<le> n \<and> n < calls w' \<and> snd (client (GetId op) n) = Inr o2
              \<longrightarrow> \<not> CheckOpsState o2)"
  proof (intro impI allI)
    fix n o2
    assume r: "r = Some (errorString ''timeout reached'')"
      and n: "calls w \<le> n \<and> n < calls w' \<and> snd (client (GetId op) n) = Inr o2"
    have f1: "fst (poll client op timeout (now w) w) = Some (fmt_Errorf ''timeout reached'')"
      using p r by (simp add: fmt_Errorf_def)
    have f2: "calls w \<le> n" using n by simp
    have f3: "n < calls (snd (poll client op timeout (now w) w))" using p n by simp
    have f4: "snd (client (GetId op) n) = Inr o2" using n by simp
    show "\<not> CheckOpsState o2"
      by (rule poll_timeout_nonterminal [OF f1 f2 f3 f4])
  qed
  have d: "\<exists>k. sleeps w' = sleeps w @ replicate k (10 * Second) \<and> calls w' = calls w + Suc k"
    using poll_sleeps [of client op timeout "now w" w] p by simp
  show ?thesis using False a b c d by blast
qed

theorem AreWeDoneYet_timeout_witness:
  "AreWeDoneYet (constClient runningOp) runningOp (15 * Second) world0
     = (Some (errorString ''timeout reached''),
        \<lparr>now = 20 * Second, calls = 3, sleeps = [10 * Second, 10 * Second]\<rparr>)
   \<and> \<not> CheckOpsState runningOp
   \<and> (\<exists>d o1. constClient runningOp (GetId runningOp) 7 = (d, Inr o1) \<and> \<not> CheckOpsState o1)
   \<and> 15 * Second < now (snd (AreWeDoneYet (constClient runningOp) runningOp (15 * Second) world0)) - now world0"
proof -
  have h1: "\<not> CheckOpsState runningOp"
    by (simp add: CheckOpsState_def GetState_def runningOp_def)
  have h2: "\<forall>n. \<exists>d o1. constClient runningOp (GetId runningOp) n = (d, Inr o1) \<and> \<not> CheckOpsState o1"
    using h1 by (simp add: constClient_def)
  have run: "AreWeDoneYet (constClient runningOp) runningOp (15 * Second) world0
     = (Some (errorString ''timeout reached''),
        \<lparr>now = 20 * Second, calls = 3, sleeps = [10 * Second, 10 * Second]\<rparr>)"
    using h1
    by (simp add: AreWeDoneYet_def poll.simps GetOperation_def constClient_def world0_def
        Since_def Sleep_def Second_def fmt_Errorf_def)
  from AreWeDoneYet_timeout [OF run] h1 h2
  have "15 * Second < now \<lparr>now = 20 * Second, calls = 3, sleeps = [10 * Second, 10 * Second]\<rparr> - now world0"
    by blast
  then show ?thesis using run h1 h2 by simp
qed

text \<open>
  C1. What the loop does with a fetched operation that is terminal and carries an error
  payload: it returns success exactly when the message does not look like "not found",
  and the operation-failed error exactly when it does. The two runs below start from a
  running operation; the first fetch returns a FAILED one.
\<close>

theorem AreWeDoneYet_not_found_inverted:
  "AreWeDoneYet (constClient (failedOp ''disk full'')) runningOp (900 * Second) world0
     = (None, \<lparr>now = 0, calls = 1, sleeps = []\<rparr>)
   \<and> \<not> IsNotFound (errors_New ''disk full'')
   \<and> AreWeDoneYet (constClient (failedOp ''cluster not found'')) runningOp (900 * Second) world0
     = (Some (errorString ''operation failed: cluster not found''), \<lparr>now = 0, calls = 1, sleeps = []\<rparr>)
   \<and> IsNotFound (errors_New ''cluster not found'')"
proof -
  have h1: "\<not> CheckOpsState runningOp"
    by (simp add: CheckOpsState_def GetState_def runningOp_def)
  have t: "CheckOpsState (failedOp m)" for m
    by (simp add: CheckOpsState_def GetState_def failedOp_def)
  have c: "constClient (failedOp m) (GetId runningOp) (calls world0) = (0, Inr (failedOp m))" for m
    by (simp add: constClient_def)
  have n1: "\<not> IsNotFound (errors_New ''disk full'')"
    by (simp add: IsNotFound_def errors_New_def HasPrefix_def)
  have n2: "IsNotFound (errors_New ''cluster not found'')"
    by (simp add: IsNotFound_def errors_New_def HasPrefix_def)
  have e: "GetError (failedOp m) = Some \<lparr>Message = m\<rparr>" for m
    by (simp add: GetError_def failedOp_def)
  have p: "poll (constClient (failedOp m)) runningOp timeout startTime world0 =
     ((if IsNotFound (errors_New m) then Some (fmt_Errorf (''operation failed: '' @ m)) else None),
      world0\<lparr>now := now world0 + int 0, calls := Suc (calls world0)\<rparr>)" for m timeout startTime
    using poll_fetch_terminal [where client="constClient (failedOp m)" and op=runningOp
        and w=world0 and d=0 and ?o1.0="failedOp m" and timeout=timeout and startTime=startTime]
      c t by (simp add: e)
  have q: "AreWeDoneYet (constClient (failedOp m)) runningOp timeout world0 =
     ((if IsNotFound (errors_New m) then Some (fmt_Errorf (''operation failed: '' @ m)) else None),
      world0\<lparr>now := now world0 + int 0, calls := Suc (calls world0)\<rparr>)" for m timeout
    using h1 by (simp add: AreWeDoneYet_def p)
  show ?thesis
    unfolding q using n1 n2 by (simp add: fmt_Errorf_def world0_def)
qed


section \<open>Properties of cluster.go\<close>

lemma IsNull_iff: "IsNull v \<longleftrightarrow> v = Null"
  by (cases v) (simp_all add: IsNull_def)

subsection \<open>generateClusterUpdate and generateUpdateRequest\<close>

lemma generateClusterUpdate_Aws:
  "cu_AwsPrivateLink (generateClusterUpdate String cluster) =
     (if isAwsPrivateLinkStructNil (mc_AwsPrivateLink cluster) then None
      else map_option (\<lambda>x.
             \<lparr>awsSpec_Enabled = ValueBool (aws_Enabled x),
              awsSpec_AllowedPrincipals = TypeListToStringSlice String (aws_AllowedPrincipals x),
              awsSpec_ConnectConsole = ValueBool (aws_ConnectConsole x)\<rparr>)
             (mc_AwsPrivateLink cluster))"
  by (simp add: generateClusterUpdate_def Let_def)

lemma generateClusterUpdate_Id:
  "cu_Id (generateClusterUpdate String cluster) = ValueString (mc_ID cluster)"
  by (simp add: generateClusterUpdate_def Let_def)

text \<open>
  C3, as the code has it. The update carries no AwsPrivateLink block exactly when the
  model's block is absent or all three of its leaves are null. A block whose leaves are
  set, be it to their defaults, is carried: with \<open>enabled = false\<close>,
  \<open>connect_console = false\<close> and an empty list of principals, all known, the update holds
  the block with these values.
\<close>

theorem generateClusterUpdate_aws_block:
  "(cu_AwsPrivateLink (generateClusterUpdate String cluster) = None \<longleftrightarrow>
      mc_AwsPrivateLink cluster = None
      \<or> (\<exists>x. mc_AwsPrivateLink cluster = Some x \<and> aws_Enabled x = Null
            \<and> aws_ConnectConsole x = Null \<and> aws_AllowedPrincipals x = Null))
   \<and> (mc_AwsPrivateLink cluster =
        Some \<lparr>aws_Enabled = Value False, aws_ConnectConsole = Value False,
              aws_AllowedPrincipals = Value []\<rparr>
      \<longrightarrow> cu_AwsPrivateLink (generateClusterUpdate String cluster) =
        Some \<lparr>awsSpec_Enabled = False, awsSpec_AllowedPrincipals = [],
              awsSpec_ConnectConsole = False\<rparr>)"
proof -
  have a: "cu_AwsPrivateLink (generateClusterUpdate String cluster) = None \<longleftrightarrow>
      mc_AwsPrivateLink cluster = None
      \<or> (\<exists>x. mc_AwsPrivateLink cluster = Some x \<and> aws_Enabled x = Null
            \<and> aws_ConnectConsole x = Null \<and> aws_AllowedPrincipals x = Null)"
    by (cases "mc_AwsPrivateLink cluster")
       (auto simp: generateClusterUpdate_Aws isAwsPrivateLinkStructNil_def IsNull_iff)
  have b: "mc_AwsPrivateLink cluster =
        Some \<lparr>aws_Enabled = Value False, aws_ConnectConsole = Value False,
              aws_AllowedPrincipals = Value []\<rparr>
      \<longrightarrow> cu_AwsPrivateLink (generateClusterUpdate String cluster) =
        Some \<lparr>awsSpec_Enabled = False, awsSpec_AllowedPrincipals = [],
              awsSpec_ConnectConsole = False\<rparr>"
    by (simp add: generateClusterUpdate_Aws isAwsPrivateLinkStructNil_def IsNull_iff
        ValueBool_def TypeListToStringSlice_def Elements_def)
  show ?thesis using a b by blast
qed

theorem generateClusterUpdate_aws_block_witness:
  "mc_AwsPrivateLink planCluster =
     Some \<lparr>aws_Enabled = Value False, aws_ConnectConsole = Value False,
           aws_AllowedPrincipals = Value []\<rparr>
   \<and> cu_AwsPrivateLink (generateClusterUpdate quoted planCluster) =
     Some \<lparr>awsSpec_Enabled = False, awsSpec_AllowedPrincipals = [],
           awsSpec_ConnectConsole = False\<rparr>
   \<and> cu_AwsPrivateLink (generateClusterUpdate quoted (planCluster\<lparr>mc_AwsPrivateLink := None\<rparr>)) = None"
proof -
  have h: "mc_AwsPrivateLink planCluster =
     Some \<lparr>aws_Enabled = Value False, aws_ConnectConsole = Value False,
           aws_AllowedPrincipals = Value []\<rparr>"
    by (simp add: planCluster_def explicitDefaults_def)
  have n: "mc_AwsPrivateLink (planCluster\<lparr>mc_AwsPrivateLink := None\<rparr>) = None"
    by simp
  show ?thesis
    using generateClusterUpdate_aws_block [of quoted planCluster]
      generateClusterUpdate_aws_block [of quoted "planCluster\<lparr>mc_AwsPrivateLink := None\<rparr>"] h n
    by blast
qed

text \<open>
  C3. A block present with every leaf explicitly at its default, none of them null, is not
  rewritten to the absent block: for the plan below, whose block is such a one, the update
  carries an AwsPrivateLink block.
\<close>

theorem generateClusterUpdate_explicit_defaults_kept:
  "mc_AwsPrivateLink planCluster = Some explicitDefaults
   \<and> \<not> IsNull (aws_Enabled explicitDefaults) \<and> \<not> IsNull (aws_ConnectConsole explicitDefaults)
   \<and> \<not> IsNull (aws_AllowedPrincipals explicitDefaults)
   \<and> ValueBool (aws_Enabled explicitDefaults) = False
   \<and> ValueBool (aws_ConnectConsole explicitDefaults) = False
   \<and> Elements (aws_AllowedPrincipals explicitDefaults) = []
   \<and> cu_AwsPrivateLink (generateClusterUpdate quoted planCluster) \<noteq> None"
  by (simp add: generateClusterUpdate_Aws isAwsPrivateLinkStructNil_def IsNull_def
      planCluster_def explicitDefaults_def ValueBool_def Elements_def)

text \<open>
  C6. The request carries the plan's identifier in its payload, whatever the two models
  hold, and the path of the identifier is not in the update mask.
\<close>

theorem generateUpdateRequest_Id:
  "cu_Id (req_Cluster (generateUpdateRequest String plan state)) = ValueString (mc_ID plan)
   \<and> ''id'' \<notin> set (Paths (req_UpdateMask (generateUpdateRequest String plan state)))"
  by (simp add: generateUpdateRequest_def Let_def GenerateProtobufDiffAndUpdateMask_def
      generateClusterUpdate_Id)

subsection \<open>generateModel\<close>

lemma generateModel_eq:
  "generateModel f cfg cluster = Inr out \<longleftrightarrow>
   out = generateModel_SchemaRegistry f cluster (generateModel_HTTPProxy f cluster
     (generateModel_KafkaAPI f cluster (generateModel_AzurePrivateLink f cluster
       (generateModel_GcpPrivateServiceConnect cluster (generateModel_AwsPrivateLink f cluster
         (generateModel_DataplaneApi cluster
            \<lparr>mc_Name = StringValue (cl_Name cluster),
             mc_ID = StringValue (cl_Id cluster),
             mc_ConnectionType = StringValue (ConnectionTypeToString (cl_ConnectionType cluster)),
             mc_CloudProvider = StringValue (CloudProviderToString (cl_CloudProvider cluster)),
             mc_ClusterType = StringValue (ClusterTypeToString (cl_Type cluster)),
             mc_RedpandaVersion = mc_RedpandaVersion cfg,
             mc_ThroughputTier = StringValue (cl_ThroughputTier cluster),
             mc_Region = StringValue (cl_Region cluster),
             mc_Zones = f (cl_Zones cluster),
             mc_AllowDeletion = mc_AllowDeletion cfg,
             mc_Tags = mc_Tags cfg,
             mc_ResourceGroupID = StringValue (cl_ResourceGroupId cluster),
             mc_NetworkID = StringValue (cl_NetworkId cluster),
             mc_ClusterAPIURL = Null,
             mc_ReadReplicaClusterIDs = f (cl_ReadReplicaClusterIds cluster),
             mc_AwsPrivateLink = None, mc_GcpPrivateServiceConnect = None,
             mc_AzurePrivateLink = None, mc_KafkaAPI = None, mc_HTTPProxy = None,
             mc_SchemaRegistry = None\<rparr>))))))"
  by (auto simp: generateModel_def Let_def)

lemma aws_of_stage:
  "mc_AwsPrivateLink (generateModel_DataplaneApi cluster out) = mc_AwsPrivateLink out"
  "mc_AwsPrivateLink (generateModel_GcpPrivateServiceConnect cluster out) = mc_AwsPrivateLink out"
  "mc_AwsPrivateLink (generateModel_AzurePrivateLink f cluster out) = mc_AwsPrivateLink out"
  "mc_AwsPrivateLink (generateModel_KafkaAPI f cluster out) = mc_AwsPrivateLink out"
  "mc_AwsPrivateLink (generateModel_HTTPProxy f cluster out) = mc_AwsPrivateLink out"
  "mc_AwsPrivateLink (generateModel_SchemaRegistry f cluster out) = mc_AwsPrivateLink out"
  by (simp_all add: generateModel_DataplaneApi_def generateModel_GcpPrivateServiceConnect_def
      generateModel_AzurePrivateLink_def generateModel_KafkaAPI_def generateModel_HTTPProxy_def
      generateModel_SchemaRegistry_def Let_def split: option.splits)

lemma azure_of_stage:
  "mc_AzurePrivateLink (generateModel_DataplaneApi cluster out) = mc_AzurePrivateLink out"
  "mc_AzurePrivateLink (generateModel_GcpPrivateServiceConnect cluster out) = mc_AzurePrivateLink out"
  "mc_AzurePrivateLink (generateModel_AwsPrivateLink f cluster out) = mc_AzurePrivateLink out"
  "mc_AzurePrivateLink (generateModel_KafkaAPI f cluster out) = mc_AzurePrivateLink out"
  "mc_AzurePrivateLink (generateModel_HTTPProxy f cluster out) = mc_AzurePrivateLink out"
  "mc_AzurePrivateLink (generateModel_SchemaRegistry f cluster out) = mc_AzurePrivateLink out"
  by (simp_all add: generateModel_DataplaneApi_def generateModel_GcpPrivateServiceConnect_def
      generateModel_AwsPrivateLink_def generateModel_KafkaAPI_def generateModel_HTTPProxy_def
      generateModel_SchemaRegistry_def Let_def split: option.splits)

lemma aws_of_aws_stage:
  "mc_AwsPrivateLink (generateModel_AwsPrivateLink f cluster out) =
     (case cl_AwsPrivateLink cluster of
        None \<Rightarrow> mc_AwsPrivateLink out
      | Some x \<Rightarrow>
          if \<not> awsStatus_Enabled x \<and> \<not> awsStatus_ConnectConsole x
             \<and> awsStatus_AllowedPrincipals x = []
          then mc_AwsPrivateLink out
          else Some \<lparr>aws_Enabled = Value (awsStatus_Enabled x),
                     aws_ConnectConsole = Value (awsStatus_ConnectConsole x),
                     aws_AllowedPrincipals =
                       (if f (awsStatus_AllowedPrincipals x) = Null then Value []
                        else f (awsStatus_AllowedPrincipals x))\<rparr>)"
  by (simp add: generateModel_AwsPrivateLink_def isAwsPrivateLinkSpecNil_def Let_def IsNull_iff
      BoolValue_def ListValueMust_def split: option.splits)

lemma azure_of_azure_stage:
  "mc_AzurePrivateLink (generateModel_AzurePrivateLink f cluster out) =
     (case cl_AzurePrivateLink cluster of
        None \<Rightarrow> mc_AzurePrivateLink out
      | Some x \<Rightarrow>
          if \<not> azureStatus_Enabled x \<and> azureStatus_AllowedSubscriptions x = []
             \<and> \<not> azureStatus_ConnectConsole x
          then mc_AzurePrivateLink out
          else Some \<lparr>azure_Enabled = Value (azureStatus_Enabled x),
                     azure_ConnectConsole = Value (azureStatus_ConnectConsole x),
                     azure_AllowedSubscriptions =
                       (if f (azureStatus_AllowedSubscriptions x) = Null then Value []
                        else f (azureStatus_AllowedSubscriptions x))\<rparr>)"
  by (simp add: generateModel_AzurePrivateLink_def isAzurePrivateLinkSpecNil_def Let_def IsNull_iff
      BoolValue_def ListValueMust_def split: option.splits)

lemma generateModel_Aws:
  "generateModel f cfg cluster = Inr out \<Longrightarrow>
   mc_AwsPrivateLink out =
     (case cl_AwsPrivateLink cluster of
        None \<Rightarrow> None
      | Some x \<Rightarrow>
          if \<not> awsStatus_Enabled x \<and> \<not> awsStatus_ConnectConsole x
             \<and> awsStatus_AllowedPrincipals x = []
          then None
          else Some \<lparr>aws_Enabled = Value (awsStatus_Enabled x),
                     aws_ConnectConsole = Value (awsStatus_ConnectConsole x),
                     aws_AllowedPrincipals =
                       (if f (awsStatus_AllowedPrincipals x) = Null then Value []
                        else f (awsStatus_AllowedPrincipals x))\<rparr>)"
  by (simp add: generateModel_eq aws_of_stage aws_of_aws_stage split: option.splits)

lemma generateModel_Azure:
  "generateModel f cfg cluster = Inr out \<Longrightarrow>
   mc_AzurePrivateLink out =
     (case cl_AzurePrivateLink cluster of
        None \<Rightarrow> None
      | Some x \<Rightarrow>
          if \<not> azureStatus_Enabled x \<and> azureStatus_AllowedSubscriptions x = []
             \<and> \<not> azureStatus_ConnectConsole x
          then None
          else Some \<lparr>azure_Enabled = Value (azureStatus_Enabled x),
                     azure_ConnectConsole = Value (azureStatus_ConnectConsole x),
                     azure_AllowedSubscriptions =
                       (if f (azureStatus_AllowedSubscriptions x) = Null then Value []
                        else f (azureStatus_AllowedSubscriptions x))\<rparr>)"
  by (simp add: generateModel_eq azure_of_stage azure_of_azure_stage split: option.splits)

lemma generateModel_total: "\<exists>out. generateModel f cfg cluster = Inr out"
  by (simp add: generateModel_def Let_def)

lemma stage_without_aws:
  "generateModel_DataplaneApi (cluster\<lparr>cl_AwsPrivateLink := v\<rparr>) out
     = generateModel_DataplaneApi cluster out"
  "generateModel_GcpPrivateServiceConnect (cluster\<lparr>cl_AwsPrivateLink := v\<rparr>) out
     = generateModel_GcpPrivateServiceConnect cluster out"
  "generateModel_AzurePrivateLink f (cluster\<lparr>cl_AwsPrivateLink := v\<rparr>) out
     = generateModel_AzurePrivateLink f cluster out"
  "generateModel_KafkaAPI f (cluster\<lparr>cl_AwsPrivateLink := v\<rparr>) out
     = generateModel_KafkaAPI f cluster out"
  "generateModel_HTTPProxy f (cluster\<lparr>cl_AwsPrivateLink := v\<rparr>) out
     = generateModel_HTTPProxy f cluster out"
  "generateModel_SchemaRegistry f (cluster\<lparr>cl_AwsPrivateLink := v\<rparr>) out
     = generateModel_SchemaRegistry f cluster out"
  by (simp_all add: generateModel_DataplaneApi_def generateModel_GcpPrivateServiceConnect_def
      generateModel_AzurePrivateLink_def generateModel_KafkaAPI_def generateModel_HTTPProxy_def
      generateModel_SchemaRegistry_def GetKafkaApi_GetMtls_def GetHttpProxy_GetMtls_def
      GetSchemaRegistry_GetMtls_def)

lemma aws_stage_nil:
  "isAwsPrivateLinkSpecNil (cl_AwsPrivateLink cluster) \<Longrightarrow>
   generateModel_AwsPrivateLink f cluster out = out"
  by (simp add: generateModel_AwsPrivateLink_def)

lemma generateModel_collapse:
  assumes "isAwsPrivateLinkSpecNil (cl_AwsPrivateLink cluster)"
  shows "generateModel f cfg cluster = generateModel f cfg (cluster\<lparr>cl_AwsPrivateLink := None\<rparr>)"
proof -
  have n: "isAwsPrivateLinkSpecNil (cl_AwsPrivateLink (cluster\<lparr>cl_AwsPrivateLink := None\<rparr>))"
    by (simp add: isAwsPrivateLinkSpecNil_def)
  show ?thesis
    by (simp add: generateModel_def Let_def stage_without_aws
        aws_stage_nil [OF assms] aws_stage_nil [OF n])
qed

text \<open>
  C2. A cluster whose aws_private_link block is present with \<open>enabled = false\<close>,
  \<open>connect_console = false\<close> and no allowed principals gives the same model as the cluster
  with the block absent, and that model has no block. A block with \<open>enabled = true\<close> is
  kept, whatever its other leaves hold.
\<close>

theorem generateModel_aws_collapse:
  "(cl_AwsPrivateLink cluster =
      Some \<lparr>awsStatus_Enabled = False, awsStatus_ConnectConsole = False,
            awsStatus_AllowedPrincipals = []\<rparr>
    \<longrightarrow> generateModel f cfg cluster = generateModel f cfg (cluster\<lparr>cl_AwsPrivateLink := None\<rparr>)
      \<and> (\<exists>out. generateModel f cfg cluster = Inr out \<and> mc_AwsPrivateLink out = None))
   \<and> (\<forall>x. cl_AwsPrivateLink cluster = Some x \<and> awsStatus_Enabled x
      \<longrightarrow> (\<exists>out b. generateModel f cfg cluster = Inr out \<and> mc_AwsPrivateLink out = Some b
            \<and> aws_Enabled b = Value True
            \<and> aws_ConnectConsole b = Value (awsStatus_ConnectConsole x)))"
proof -
  obtain out where out: "generateModel f cfg cluster = Inr out"
    using generateModel_total by blast
  have a: "cl_AwsPrivateLink cluster =
      Some \<lparr>awsStatus_Enabled = False, awsStatus_ConnectConsole = False,
            awsStatus_AllowedPrincipals = []\<rparr>
    \<longrightarrow> generateModel f cfg cluster = generateModel f cfg (cluster\<lparr>cl_AwsPrivateLink := None\<rparr>)
      \<and> (\<exists>out. generateModel f cfg cluster = Inr out \<and> mc_AwsPrivateLink out = None)"
  proof
    assume c: "cl_AwsPrivateLink cluster =
      Some \<lparr>awsStatus_Enabled = False, awsStatus_ConnectConsole = False,
            awsStatus_AllowedPrincipals = []\<rparr>"
    then have "isAwsPrivateLinkSpecNil (cl_AwsPrivateLink cluster)"
      by (simp add: isAwsPrivateLinkSpecNil_def)
    then have "generateModel f cfg cluster = generateModel f cfg (cluster\<lparr>cl_AwsPrivateLink := None\<rparr>)"
      by (rule generateModel_collapse)
    moreover have "mc_AwsPrivateLink out = None"
      using generateModel_Aws [OF out] c by simp
    ultimately show "generateModel f cfg cluster = generateModel f cfg (cluster\<lparr>cl_AwsPrivateLink := None\<rparr>)
      \<and> (\<exists>out. generateModel f cfg cluster = Inr out \<and> mc_AwsPrivateLink out = None)"
      using out by blast
  qed
  have b: "\<forall>x. cl_AwsPrivateLink cluster = Some x \<and> awsStatus_Enabled x
      \<longrightarrow> (\<exists>out b. generateModel f cfg cluster = Inr out \<and> mc_AwsPrivateLink out = Some b
            \<and> aws_Enabled b = Value True
            \<and> aws_ConnectConsole b = Value (awsStatus_ConnectConsole x))"
    using generateModel_Aws [OF out] out by auto
  show ?thesis using a b by blast
qed

theorem generateModel_aws_collapse_witness:
  "generateModel nullIfEmpty planCluster backendCluster
     = generateModel nullIfEmpty planCluster (backendCluster\<lparr>cl_AwsPrivateLink := None\<rparr>)
   \<and> (\<exists>out. generateModel nullIfEmpty planCluster backendCluster = Inr out
         \<and> mc_AwsPrivateLink out = None)
   \<and> (\<exists>out b. generateModel nullIfEmpty planCluster (backendCluster\<lparr>cl_AwsPrivateLink := Some enabledOnly\<rparr>) = Inr out
         \<and> mc_AwsPrivateLink out = Some b \<and> aws_Enabled b = Value True)"
proof -
  have h1: "cl_AwsPrivateLink backendCluster =
      Some \<lparr>awsStatus_Enabled = False, awsStatus_ConnectConsole = False,
            awsStatus_AllowedPrincipals = []\<rparr>"
    by (simp add: backendCluster_def)
  have h2: "cl_AwsPrivateLink (backendCluster\<lparr>cl_AwsPrivateLink := Some enabledOnly\<rparr>) = Some enabledOnly
      \<and> awsStatus_Enabled enabledOnly"
    by (simp add: enabledOnly_def)
  show ?thesis
    using generateModel_aws_collapse [of backendCluster nullIfEmpty planCluster]
      generateModel_aws_collapse [of "backendCluster\<lparr>cl_AwsPrivateLink := Some enabledOnly\<rparr>" nullIfEmpty planCluster]
      h1 h2
    by blast
qed

text \<open>
  C7. In the model \<open>generateModel\<close> returns, the list of allowed principals of a kept
  aws_private_link block, and the list of allowed subscriptions of a kept
  azure_private_link block, are not null; where the control plane returned no elements
  and the conversion of the empty slice is the null list, the list is the known empty one.
\<close>

theorem generateModel_lists_not_null:
  assumes "generateModel f cfg cluster = Inr out"
  shows "(\<forall>b. mc_AwsPrivateLink out = Some b \<longrightarrow> \<not> IsNull (aws_AllowedPrincipals b))
    \<and> (\<forall>b x. mc_AwsPrivateLink out = Some b \<and> cl_AwsPrivateLink cluster = Some x
          \<and> awsStatus_AllowedPrincipals x = [] \<and> IsNull (f [])
        \<longrightarrow> aws_AllowedPrincipals b = ListValueMust [])
    \<and> (\<forall>b. mc_AzurePrivateLink out = Some b \<longrightarrow> \<not> IsNull (azure_AllowedSubscriptions b))
    \<and> (\<forall>b x. mc_AzurePrivateLink out = Some b \<and> cl_AzurePrivateLink cluster = Some x
          \<and> azureStatus_AllowedSubscriptions x = [] \<and> IsNull (f [])
        \<longrightarrow> azure_AllowedSubscriptions b = ListValueMust [])"
proof -
  have a: "\<forall>b. mc_AwsPrivateLink out = Some b \<longrightarrow> \<not> IsNull (aws_AllowedPrincipals b)"
    using generateModel_Aws [OF assms]
    by (auto simp: IsNull_iff split: option.splits if_splits)
  have b: "\<forall>b x. mc_AwsPrivateLink out = Some b \<and> cl_AwsPrivateLink cluster = Some x
          \<and> awsStatus_AllowedPrincipals x = [] \<and> IsNull (f [])
        \<longrightarrow> aws_AllowedPrincipals b = ListValueMust []"
    using generateModel_Aws [OF assms]
    by (auto simp: IsNull_iff ListValueMust_def split: option.splits if_splits)
  have c: "\<forall>b. mc_AzurePrivateLink out = Some b \<longrightarrow> \<not> IsNull (azure_AllowedSubscriptions b)"
    using generateModel_Azure [OF assms]
    by (auto simp: IsNull_iff split: option.splits if_splits)
  have d: "\<forall>b x. mc_AzurePrivateLink out = Some b \<and> cl_AzurePrivateLink cluster = Some x
          \<and> azureStatus_AllowedSubscriptions x = [] \<and> IsNull (f [])
        \<longrightarrow> azure_AllowedSubscriptions b = ListValueMust []"
    using generateModel_Azure [OF assms]
    by (auto simp: IsNull_iff ListValueMust_def split: option.splits if_splits)
  show ?thesis using a b c d by blast
qed

theorem generateModel_lists_not_null_witness:
  "\<exists>out b. generateModel nullIfEmpty planCluster backendCluster = Inr out
      \<and> mc_AzurePrivateLink out = Some b
      \<and> \<not> IsNull (azure_AllowedSubscriptions b)
      \<and> azure_AllowedSubscriptions b = ListValueMust []
      \<and> IsNull (nullIfEmpty [])"
proof -
  obtain out where out: "generateModel nullIfEmpty planCluster backendCluster = Inr out"
    using generateModel_total by blast
  obtain x where x: "cl_AzurePrivateLink backendCluster = Some x"
      "azureStatus_AllowedSubscriptions x = []" "azureStatus_Enabled x"
    by (simp add: backendCluster_def)
  have n: "IsNull (nullIfEmpty [])"
    by (simp add: nullIfEmpty_def IsNull_def)
  obtain b where b: "mc_AzurePrivateLink out = Some b"
    using generateModel_Azure [OF out] x by simp
  have "\<not> IsNull (azure_AllowedSubscriptions b) \<and> azure_AllowedSubscriptions b = ListValueMust []"
    using generateModel_lists_not_null [OF out] b x n by blast
  then show ?thesis using out b n by blast
qed



section \<open>Properties of Configure\<close>

lemma Append_single: "Append diags [d] = (if d \<in> set diags then diags else diags @ [d])"
  by (simp add: Append_def)

lemma set_AddError:
  "set (AddError summary detail diags) =
     insert \<lparr>diag_Severity = SeverityError, diag_Summary = summary, diag_Detail = detail\<rparr> (set diags)"
  by (auto simp: AddError_def Append_single)

lemma no_error_not_member:
  "\<not> HasError diags \<Longrightarrow>
   \<lparr>diag_Severity = SeverityError, diag_Summary = summary, diag_Detail = detail\<rparr> \<notin> set diags"
  by (auto simp: HasError_def list_ex_iff)

text \<open>
  C9. Where reading the configuration left no error, the client id handed to the
  resources is the configured one when that is not empty, whatever the environment holds,
  and the value of \<open>CLIENT_ID\<close> otherwise; the error "no client id" is among the
  diagnostics exactly when both are empty. The same holds of the client secret and
  \<open>CLIENT_SECRET\<close>, each credential on its own.
\<close>

theorem Configure_credentials:
  assumes "\<not> HasError (Append (resp_Diagnostics response) diags)"
    and "Configure r Getenv (conf, diags) response = out"
  shows "(\<exists>rd. resp_ResourceData out = Some rd
        \<and> rd_ClientID rd =
            (if ValueString (rp_ClientID conf) \<noteq> [] then ValueString (rp_ClientID conf)
             else Getenv ''CLIENT_ID'')
        \<and> rd_ClientSecret rd =
            (if ValueString (rp_ClientSecret conf) \<noteq> [] then ValueString (rp_ClientSecret conf)
             else Getenv ''CLIENT_SECRET''))
    \<and> (\<lparr>diag_Severity = SeverityError, diag_Summary = ''no client id'',
         diag_Detail = ''no client id found''\<rparr> \<in> set (resp_Diagnostics out)
       \<longleftrightarrow> ValueString (rp_ClientID conf) = [] \<and> Getenv ''CLIENT_ID'' = [])
    \<and> (\<lparr>diag_Severity = SeverityError, diag_Summary = ''no client secret'',
         diag_Detail = ''no client secret found''\<rparr> \<in> set (resp_Diagnostics out)
       \<longleftrightarrow> ValueString (rp_ClientSecret conf) = [] \<and> Getenv ''CLIENT_SECRET'' = [])"
proof -
  note n = no_error_not_member [OF assms(1)]
  show ?thesis
    using assms(1) n [of "''no client id''" "''no client id found''"]
      n [of "''no client secret''" "''no client secret found''"]
    unfolding assms(2) [symmetric]
    by (auto simp: Configure_def Let_def set_AddError)
qed

theorem Configure_credentials_witness:
  "(\<exists>rd. resp_ResourceData
           (Configure \<lparr>version = ''dev''\<rparr> envBoth
              (\<lparr>rp_ClientID = Value ''cfg-id'', rp_ClientSecret = Null\<rparr>, []) emptyResponse) = Some rd
        \<and> rd_ClientID rd = ''cfg-id'' \<and> rd_ClientSecret rd = ''env-secret'')
   \<and> \<lparr>diag_Severity = SeverityError, diag_Summary = ''no client secret'',
        diag_Detail = ''no client secret found''\<rparr>
      \<in> set (resp_Diagnostics
           (Configure \<lparr>version = ''dev''\<rparr> envNone
              (\<lparr>rp_ClientID = Value ''cfg-id'', rp_ClientSecret = Null\<rparr>, []) emptyResponse))
   \<and> \<lparr>diag_Severity = SeverityError, diag_Summary = ''no client id'',
        diag_Detail = ''no client id found''\<rparr>
      \<notin> set (resp_Diagnostics
           (Configure \<lparr>version = ''dev''\<rparr> envNone
              (\<lparr>rp_ClientID = Value ''cfg-id'', rp_ClientSecret = Null\<rparr>, []) emptyResponse))"
proof -
  have h: "\<not> HasError (Append (resp_Diagnostics emptyResponse) [])"
    by (simp add: HasError_def Append_def emptyResponse_def)
  have v: "ValueString (Value ''cfg-id'') = ''cfg-id''" "ValueString Null = []"
    by (simp_all add: ValueString_def)
  have e: "envBoth ''CLIENT_SECRET'' = ''env-secret''" "envNone ''CLIENT_SECRET'' = []"
      "envNone ''CLIENT_ID'' = []"
    by (simp_all add: envBoth_def envNone_def)
  show ?thesis
    using Configure_credentials [OF h refl, of "\<lparr>version = ''dev''\<rparr>" envBoth
        "\<lparr>rp_ClientID = Value ''cfg-id'', rp_ClientSecret = Null\<rparr>"]
      Configure_credentials [OF h refl, of "\<lparr>version = ''dev''\<rparr>" envNone
        "\<lparr>rp_ClientID = Value ''cfg-id'', rp_ClientSecret = Null\<rparr>"]
    by (simp add: v e)
qed

section \<open>Properties of the topic configuration slices\<close>

lemma foldl_append_one: "foldl (\<lambda>output v. output @ [g v]) acc xs = acc @ map g xs"
  by (induction xs arbitrary: acc) simp_all

lemma ConfigSynonymsToSlice_eq:
  "ConfigSynonymsToSlice synonyms =
     replicate (length synonyms) None @ map (\<lambda>v. Some (toTopicConfigSynonym v)) synonyms"
  by (simp add: ConfigSynonymsToSlice_def make_def foldl_append_one)

lemma TopicConfigurationToSlice_eq:
  "TopicConfigurationToSlice cfg =
     replicate (length cfg) None @ map (\<lambda>v. Some (toTopicConfiguration v)) cfg"
  by (simp add: TopicConfigurationToSlice_def make_def foldl_append_one)

text \<open>
  C10. \<open>TopicConfigurationToSlice\<close> of a slice of length \<open>n\<close> has length \<open>2n\<close>: its first
  \<open>n\<close> entries are nil and the \<open>n\<close> that follow are the converted entries, in order. The
  same holds of \<open>ConfigSynonymsToSlice\<close>.
\<close>

theorem ToSlice_doubles:
  "length (TopicConfigurationToSlice cfg) = 2 * length cfg
   \<and> take (length cfg) (TopicConfigurationToSlice cfg) = replicate (length cfg) None
   \<and> drop (length cfg) (TopicConfigurationToSlice cfg)
       = map (\<lambda>v. Some (toTopicConfiguration v)) cfg
   \<and> length (ConfigSynonymsToSlice synonyms) = 2 * length synonyms
   \<and> take (length synonyms) (ConfigSynonymsToSlice synonyms) = replicate (length synonyms) None
   \<and> drop (length synonyms) (ConfigSynonymsToSlice synonyms)
       = map (\<lambda>v. Some (toTopicConfigSynonym v)) synonyms"
  by (simp add: TopicConfigurationToSlice_eq ConfigSynonymsToSlice_eq)


end
